theory Spec2Isabelle
  imports Complex_Main
begin

section \<open>JavaScript values\<close>

text \<open>
  The value handed to the component dispatcher comes from form state, and the raw input
  of a request from the wire; both are typed \<^verbatim>\<open>unknown\<close> at run time. The values here
  are those that JSON carries, \<^verbatim>\<open>undefined\<close>, and the numbers that are not finite. A
  finite number is a real (every double is one; no arithmetic is done on it, so no
  rounding is modelled, and the two zeros are one). An object is the list of its own
  keys and their values; there are no functions, so no member of an object can be called.
\<close>

datatype non_finite = NaN | PosInfinity | NegInfinity

datatype js_value =
    JUndefined
  | JNull
  | JBoolean bool
  | JNumber real
  | JNonFinite non_finite
  | JString string
  | JArray "js_value list"
  | JObject "(string \<times> js_value) list"

fun typeof :: "js_value \<Rightarrow> string" where
  "typeof JUndefined = ''undefined''"
| "typeof JNull = ''object''"
| "typeof (JBoolean b) = ''boolean''"
| "typeof (JNumber n) = ''number''"
| "typeof (JNonFinite x) = ''number''"
| "typeof (JString s) = ''string''"
| "typeof (JArray vs) = ''object''"
| "typeof (JObject kvs) = ''object''"

text \<open>\<^verbatim>\<open>val instanceof Array && val.every((v) => typeof v === "string")\<close>\<close>

fun every_string :: "js_value \<Rightarrow> bool" where
  "every_string (JArray vs) = list_all (\<lambda>v. typeof v = ''string'') vs"
| "every_string v = False"

text \<open>
  \<^verbatim>\<open>key in value\<close>, for a value already known to be a non-null object. A plain object
  has the key when it is one of its own keys; an array has index keys and
  \<^verbatim>\<open>length\<close> only, none of which is a field name the dispatcher asks for.
\<close>

fun has_key :: "string \<Rightarrow> js_value \<Rightarrow> bool" where
  "has_key k (JObject kvs) = (k \<in> set (map fst kvs))"
| "has_key k v = False"

text \<open>
  Whether the conversion of a value to a string (\<^verbatim>\<open>ToString\<close>, as a template literal
  applies it) throws a TypeError. A plain object is converted by its \<^verbatim>\<open>toString\<close>, then
  its \<^verbatim>\<open>valueOf\<close>: an own \<^verbatim>\<open>toString\<close> that cannot be called is passed over, and
  \<^verbatim>\<open>valueOf\<close> (own and not callable, or inherited and answering the object itself) gives
  no primitive, so the conversion throws; without an own \<^verbatim>\<open>toString\<close> the inherited one
  answers \<^verbatim>\<open>[object Object]\<close>. An array is converted by \<^verbatim>\<open>join\<close>, which converts each
  element but \<^verbatim>\<open>undefined\<close> and \<^verbatim>\<open>null\<close>. Every other value has a string.
\<close>

fun ToString_throws :: "js_value \<Rightarrow> bool" where
  "ToString_throws (JArray vs) = list_ex ToString_throws vs"
| "ToString_throws (JObject kvs) = (''toString'' \<in> set (map fst kvs))"
| "ToString_throws v = False"

section \<open>The field schema\<close>

text \<open>
  The zod schema \<^verbatim>\<open>fieldsSchema\<close> lives in \<^verbatim>\<open>FormBuilderFieldsSchema\<close>; the record
  below has the members that \<^verbatim>\<open>FormBuilder.tsx\<close> reads or writes. A member that the
  code tests for presence (\<^verbatim>\<open>!field.options\<close>, \<^verbatim>\<open>field.editable || "user"\<close>,
  \<^verbatim>\<open>field.sources?.map\<close>) or negates (\<^verbatim>\<open>!field.hidden\<close>) is optional, with
  \<open>None\<close> for \<^verbatim>\<open>undefined\<close>. The members \<^verbatim>\<open>label\<close> and \<^verbatim>\<open>value\<close> of an option, and
  \<^verbatim>\<open>label\<close>, \<^verbatim>\<open>type\<close> and \<^verbatim>\<open>id\<close> of a source, carry a prefix here so that they do
  not hide the members of the field.
\<close>

datatype editable_class = System | SystemButOptional | User | UserReadonly

record field_option =
  opt_label :: string
  opt_value :: string

record titled_option = field_option +
  title :: string

record field_source =
  src_label :: string
  src_type :: string
  src_id :: string
  fieldRequired :: "bool option"

record field =
  name :: string
  type :: string
  label :: "string option"
  defaultLabel :: "string option"
  placeholder :: "string option"
  defaultPlaceholder :: "string option"
  required :: "bool option"
  hidden :: "bool option"
  editable :: "editable_class option"
  options :: "field_option list option"
  optionsInputs :: "(string \<times> js_value) list option"
  sources :: "field_source list option"

text \<open>JavaScript truthiness of an optional boolean member.\<close>

fun truthy :: "bool option \<Rightarrow> bool" where
  "truthy None = False"
| "truthy (Some b) = b"

section \<open>The component dispatcher\<close>

text \<open>
  \<^verbatim>\<open>Components\<close> (imported from \<^verbatim>\<open>./Components\<close>) maps a field type to its
  component configuration. The dispatcher reads \<^verbatim>\<open>propsType\<close> from it and mounts its
  \<^verbatim>\<open>factory\<close>; the table is a parameter \<open>comps\<close> of the dispatcher here, a lookup
  that is \<open>None\<close> where \<^verbatim>\<open>Components[fieldType]\<close> is \<^verbatim>\<open>undefined\<close>.
\<close>

record component_config =
  propsType :: string

type_synonym components = "string \<Rightarrow> component_config option"

text \<open>
  Every \<^verbatim>\<open>throw\<close> of the dispatcher is a value. The messages are template strings;
  the error keeps what the template interpolates.
  \<^item> \<open>TypeError\<close>: the runtime's own error, for reading \<^verbatim>\<open>propsType\<close> of an
    \<^verbatim>\<open>undefined\<close> configuration and for a value that has no string conversion where a
    template interpolates it;
  \<^item> \<open>UnknownPropsType p\<close>: \<^verbatim>\<open>Unknown propsType ${propsType}\<close>;
  \<^item> \<open>ValueNotValid v p n\<close>: \<^verbatim>\<open>Value ${value} is not valid for type ${propsType} for field ${field.name}\<close>;
  \<^item> \<open>OptionsNotDefined\<close>: \<^verbatim>\<open>Field options is not defined\<close>;
  \<^item> \<open>OptionsInputsNotDefined\<close>: \<^verbatim>\<open>Field optionsInputs is not defined\<close>;
  \<^item> \<open>NoValidPropsType n\<close>: \<^verbatim>\<open>Field ${field.name} does not have a valid propsType\<close>;
  \<^item> \<open>InvalidFieldType t\<close>: \<^verbatim>\<open>Invalid field type - ${field.type}\<close> (thrown by the builder's list).
\<close>

datatype error =
    TypeError
  | UnknownPropsType string
  | ValueNotValid js_value string string
  | OptionsNotDefined
  | OptionsInputsNotDefined
  | NoValidPropsType string
  | InvalidFieldType string

text \<open>
  The element mounted for each \<^verbatim>\<open>propsType\<close>, with the props in the order the source
  passes them (\<^verbatim>\<open>setValue\<close>, a callback, is left out):
  \<^item> \<open>TextComponent placeholder label readOnly name value\<close>
  \<^item> \<open>BooleanComponent label readOnly value placeholder\<close>
  \<^item> \<open>TextListComponent placeholder label readOnly value\<close>
  \<^item> \<open>SelectComponent readOnly value placeholder options\<close>
  \<^item> \<open>MultiselectComponent placeholder readOnly value options\<close>
  \<^item> \<open>ObjectiveWithInputComponent placeholder readOnly name value optionsInputs options\<close>
\<close>

datatype element =
    TextComponent "string option" "string option" bool string js_value
  | BooleanComponent "string option" bool js_value "string option"
  | TextListComponent "string option" "string option" bool js_value
  | SelectComponent bool js_value "string option" "titled_option list"
  | MultiselectComponent "string option" bool js_value "titled_option list"
  | ObjectiveWithInputComponent "string option" bool string js_value
      "(string \<times> js_value) list" "field_option list"

text \<open>What the dispatcher returns: \<^verbatim>\<open>null\<close>, or the element wrapped in \<^verbatim>\<open>WithLabel\<close>.\<close>

datatype rendered =
    RenderNull
  | WithLabel field bool element

text \<open>\<^verbatim>\<open>field.options.map((o) => ({ ...o, title: o.label }))\<close>\<close>

definition with_title :: "field_option \<Rightarrow> titled_option" where
  "with_title opt =
    \<lparr>opt_label = opt_label opt, opt_value = opt_value opt, title = opt_label opt\<rparr>"

text \<open>
  \<^verbatim>\<open>isValueOfPropsType\<close> is a closure inside the dispatcher: the branch for
  \<^verbatim>\<open>objectiveWithInput\<close> reads the dispatcher's own \<^verbatim>\<open>value\<close>, not its parameter
  \<^verbatim>\<open>val\<close>. The captured \<open>value\<close> is the first argument here.
\<close>

definition isValueOfPropsType :: "js_value \<Rightarrow> js_value \<Rightarrow> string \<Rightarrow> error + bool" where
  "isValueOfPropsType value val pt =
    (if pt = ''text'' then Inr (typeof val = ''string'')
     else if pt = ''boolean'' then Inr (typeof val = ''boolean'')
     else if pt = ''textList'' then Inr (every_string val)
     else if pt = ''select'' then Inr (typeof val = ''string'')
     else if pt = ''multiselect'' then Inr (every_string val)
     else if pt = ''objectiveWithInput'' then
       Inr (if typeof value = ''object'' \<and> value \<noteq> JNull then has_key ''value'' value else False)
     else Inl (UnknownPropsType pt))"

text \<open>The branches of the dispatcher after the value check, in the source's order.\<close>

definition render_branches :: "component_config \<Rightarrow> field \<Rightarrow> js_value \<Rightarrow> bool \<Rightarrow> error + rendered" where
  "render_branches componentConfig field value readOnly =
    (if propsType componentConfig = ''text'' then
       Inr (WithLabel field readOnly
         (TextComponent (placeholder field) (label field) readOnly (name field) value))
     else if propsType componentConfig = ''boolean'' then
       Inr (WithLabel field readOnly
         (BooleanComponent (label field) readOnly value (placeholder field)))
     else if propsType componentConfig = ''textList'' then
       Inr (WithLabel field readOnly
         (TextListComponent (placeholder field) (label field) readOnly value))
     else if propsType componentConfig = ''select'' then
       (case options field of
          None \<Rightarrow> Inl OptionsNotDefined
        | Some os \<Rightarrow>
            Inr (WithLabel field readOnly
              (SelectComponent readOnly value (placeholder field) (map with_title os))))
     else if propsType componentConfig = ''multiselect'' then
       (case options field of
          None \<Rightarrow> Inl OptionsNotDefined
        | Some os \<Rightarrow>
            Inr (WithLabel field readOnly
              (MultiselectComponent (placeholder field) readOnly value (map with_title os))))
     else if propsType componentConfig = ''objectiveWithInput'' then
       (case options field of
          None \<Rightarrow> Inl OptionsNotDefined
        | Some os \<Rightarrow>
            (case optionsInputs field of
               None \<Rightarrow> Inl OptionsInputsNotDefined
             | Some ois \<Rightarrow>
                 if length os \<noteq> 0 then
                   Inr (WithLabel field readOnly
                     (ObjectiveWithInputComponent (placeholder field) readOnly (name field) value ois os))
                 else Inr RenderNull))
     else Inl (NoValidPropsType (name field)))"

text \<open>
  The dispatcher. Its error for a rejected value is built from the template
  \<^verbatim>\<open>Value ${value} is not valid for type ...\<close>, which converts the value to a string
  before the error exists: where that conversion throws, the TypeError is what comes out.
\<close>

definition ComponentForField :: "components \<Rightarrow> field \<Rightarrow> js_value \<Rightarrow> bool \<Rightarrow> error + rendered" where
  "ComponentForField comps field value readOnly =
    (case comps (type field) of
       None \<Rightarrow> Inl TypeError
     | Some componentConfig \<Rightarrow>
         (if value \<noteq> JUndefined then
            (case isValueOfPropsType value value (propsType componentConfig) of
               Inl e \<Rightarrow> Inl e
             | Inr ok \<Rightarrow>
                 if \<not> ok then
                   (if ToString_throws value then Inl TypeError
                    else Inl (ValueNotValid value (propsType componentConfig) (name field)))
                 else render_branches componentConfig field value readOnly)
          else render_branches componentConfig field value readOnly))"

text \<open>
  Modelled from the spec: the table \<^verbatim>\<open>Components\<close> of \<^verbatim>\<open>./Components\<close> is not among the
  sources. The spec lists six value-shape contracts (text, boolean, textList, select,
  multiselect, objectiveWithInput) and, in its scenarios, resolves the field types
  \<^verbatim>\<open>text\<close>, \<^verbatim>\<open>select\<close> and \<^verbatim>\<open>objectiveWithInput\<close> to the contract of the same name.
  This table resolves each of the six names to itself. The dispatcher never refers to
  it: it is the table of the concrete scenarios only.
\<close>

definition Components :: components where
  "Components = map_of
    [(''text'', \<lparr>propsType = ''text''\<rparr>),
     (''boolean'', \<lparr>propsType = ''boolean''\<rparr>),
     (''textList'', \<lparr>propsType = ''textList''\<rparr>),
     (''select'', \<lparr>propsType = ''select''\<rparr>),
     (''multiselect'', \<lparr>propsType = ''multiselect''\<rparr>),
     (''objectiveWithInput'', \<lparr>propsType = ''objectiveWithInput''\<rparr>)]"

text \<open>The six contracts that \<^verbatim>\<open>isValueOfPropsType\<close> and the dispatcher branch on.\<close>

definition known_propsTypes :: "string list" where
  "known_propsTypes =
    [''text'', ''boolean'', ''textList'', ''select'', ''multiselect'', ''objectiveWithInput'']"

text \<open>A field with a name and a type and every optional member \<^verbatim>\<open>undefined\<close>.\<close>

definition blank_field :: "string \<Rightarrow> string \<Rightarrow> field" where
  "blank_field n t =
    \<lparr>name = n, type = t, label = None, defaultLabel = None, placeholder = None,
     defaultPlaceholder = None, required = None, hidden = None, editable = None,
     options = None, optionsInputs = None, sources = None\<rparr>"

section \<open>The schema collection editor\<close>

subsection \<open>The field array\<close>

text \<open>
  \<^verbatim>\<open>fields\<close>, \<^verbatim>\<open>swap\<close>, \<^verbatim>\<open>remove\<close>, \<^verbatim>\<open>update\<close> and \<^verbatim>\<open>append\<close> come from
  \<^verbatim>\<open>useFieldArray\<close> of react-hook-form, which is not among the sources. Indices are
  integers, as the component computes \<^verbatim>\<open>index - 1\<close> and keeps \<^verbatim>\<open>-1\<close> for "no index".
\<close>

definition in_range :: "int \<Rightarrow> 'a list \<Rightarrow> bool" where
  "in_range i xs = (0 \<le> i \<and> i < int (length xs))"

text \<open>
  Modelled from the spec: \<^verbatim>\<open>swap\<close> of the field array is missing. The spec:
  "exchanges two entries' positions; out-of-range indices are a precondition violation
  (undefined/fatal, not recovered)". \<open>None\<close> is the violated precondition.
\<close>

definition swap :: "int \<Rightarrow> int \<Rightarrow> 'a list \<Rightarrow> 'a list option" where
  "swap indexA indexB xs =
    (if in_range indexA xs \<and> in_range indexB xs
     then Some (xs[nat indexA := xs ! nat indexB, nat indexB := xs ! nat indexA])
     else None)"

text \<open>
  Modelled from the spec: \<^verbatim>\<open>remove\<close> of the field array is missing. The spec: "removes
  the entry". The spec says nothing of an index outside the collection: \<open>None\<close> there.
\<close>

definition remove :: "int \<Rightarrow> 'a list \<Rightarrow> 'a list option" where
  "remove index xs =
    (if in_range index xs then Some (take (nat index) xs @ drop (Suc (nat index)) xs)
     else None)"

text \<open>
  Modelled from the spec: \<^verbatim>\<open>update\<close> of the field array is missing. The spec: "replaces
  \<^verbatim>\<open>collection[fieldIndex]\<close> wholesale". The spec says nothing of an index outside the
  collection: \<open>None\<close> there.
\<close>

definition update :: "int \<Rightarrow> 'a \<Rightarrow> 'a list \<Rightarrow> 'a list option" where
  "update index v xs = (if in_range index xs then Some (xs[nat index := v]) else None)"

text \<open>
  Modelled from the spec: \<^verbatim>\<open>append\<close> of the field array is missing. The spec:
  "appends": the new entry goes last.
\<close>

definition append_entry :: "'a \<Rightarrow> 'a list \<Rightarrow> 'a list" where
  "append_entry v xs = xs @ [v]"

subsection \<open>The builder's state and its handlers\<close>

text \<open>
  The state of \<^verbatim>\<open>FormBuilder\<close>: the field array, \<^verbatim>\<open>fieldDialog\<close>, and the values of
  the dialog's own form \<^verbatim>\<open>fieldForm\<close> as its last \<^verbatim>\<open>reset\<close> left them (\<open>None\<close> after
  \<^verbatim>\<open>reset({})\<close>). The array is \<open>fields_arr\<close> here, \<open>fields\<close> being taken by the record
  package.
\<close>

record dialog =
  isOpen :: bool
  fieldIndex :: int

record builder =
  fields_arr :: "field list"
  fieldDialog :: dialog
  fieldForm :: "field option"

definition addField :: "builder \<Rightarrow> builder" where
  "addField s = s\<lparr>fieldForm := None, fieldDialog := \<lparr>isOpen = True, fieldIndex = - 1\<rparr>\<rparr>"

definition editField :: "int \<Rightarrow> field \<Rightarrow> builder \<Rightarrow> builder" where
  "editField index data s =
    s\<lparr>fieldForm := Some data, fieldDialog := \<lparr>isOpen = True, fieldIndex = index\<rparr>\<rparr>"

definition removeField :: "int \<Rightarrow> builder \<Rightarrow> builder option" where
  "removeField index s =
    (case remove index (fields_arr s) of
       None \<Rightarrow> None
     | Some fs \<Rightarrow> Some (s\<lparr>fields_arr := fs\<rparr>))"

text \<open>\<^verbatim>\<open>onOpenChange\<close> of the dialog.\<close>

definition onOpenChange :: "bool \<Rightarrow> builder \<Rightarrow> builder" where
  "onOpenChange opened s = s\<lparr>fieldDialog := \<lparr>isOpen = opened, fieldIndex = - 1\<rparr>\<rparr>"

text \<open>The source stamped on a field that the dialog creates.\<close>

definition user_source :: "field \<Rightarrow> field_source" where
  "user_source data =
    \<lparr>src_label = ''User'', src_type = ''user'', src_id = ''user'', fieldRequired = required data\<rparr>"

text \<open>\<^verbatim>\<open>field.editable || "user"\<close>\<close>

fun editable_or_user :: "editable_class option \<Rightarrow> editable_class option" where
  "editable_or_user None = Some User"
| "editable_or_user (Some e) = Some e"

text \<open>\<^verbatim>\<open>handleSubmit\<close> of the dialog's form, called with the submitted values.\<close>

definition handleSubmit :: "field \<Rightarrow> builder \<Rightarrow> builder option" where
  "handleSubmit data s =
    (let closed = \<lparr>isOpen = False, fieldIndex = - 1\<rparr> in
     if fieldIndex (fieldDialog s) \<noteq> - 1 then
       (case update (fieldIndex (fieldDialog s)) data (fields_arr s) of
          None \<Rightarrow> None
        | Some fs \<Rightarrow> Some (s\<lparr>fields_arr := fs, fieldDialog := closed\<rparr>))
     else
       (let field0 = data\<lparr>sources := Some [user_source data]\<rparr>;
            field1 = field0\<lparr>editable := editable_or_user (editable field0)\<rparr>
        in Some (s\<lparr>fields_arr := append_entry field1 (fields_arr s), fieldDialog := closed\<rparr>)))"

text \<open>The two reorder buttons of row \<open>index\<close>.\<close>

definition onClickUp :: "int \<Rightarrow> builder \<Rightarrow> builder option" where
  "onClickUp index s =
    (case swap index (index - 1) (fields_arr s) of
       None \<Rightarrow> None
     | Some fs \<Rightarrow> Some (s\<lparr>fields_arr := fs\<rparr>))"

definition onClickDown :: "int \<Rightarrow> builder \<Rightarrow> builder option" where
  "onClickDown index s =
    (case swap index (index + 1) (fields_arr s) of
       None \<Rightarrow> None
     | Some fs \<Rightarrow> Some (s\<lparr>fields_arr := fs\<rparr>))"

text \<open>
  \<^verbatim>\<open>onCheckedChange\<close> of the row's switch: \<^verbatim>\<open>update(index, { ...field, hidden: !checked })\<close>,
  where \<^verbatim>\<open>field\<close> is the entry the row was rendered from.
\<close>

definition onCheckedChange :: "int \<Rightarrow> field \<Rightarrow> bool \<Rightarrow> builder \<Rightarrow> builder option" where
  "onCheckedChange index field checked s =
    (case update index (field\<lparr>hidden := Some (\<not> checked)\<rparr>) (fields_arr s) of
       None \<Rightarrow> None
     | Some fs \<Rightarrow> Some (s\<lparr>fields_arr := fs\<rparr>))"

text \<open>
  Modelled from the spec: \<^verbatim>\<open>Switch\<close> of \<^verbatim>\<open>@calcom/ui\<close> is missing. The spec:
  "\<^verbatim>\<open>toggleHidden(index)\<close>: partial update setting \<^verbatim>\<open>hidden = !hidden\<close>". The row passes
  \<^verbatim>\<open>checked={!field.hidden}\<close>; a click on the switch calls \<^verbatim>\<open>onCheckedChange\<close> with
  the negation of the \<^verbatim>\<open>checked\<close> it was given.
\<close>

definition toggleHidden :: "int \<Rightarrow> builder \<Rightarrow> builder option" where
  "toggleHidden index s =
    (if in_range index (fields_arr s) then
       (let field = fields_arr s ! nat index;
            checked = (\<not> truthy (hidden field))
        in onCheckedChange index field (\<not> checked) s)
     else None)"

subsection \<open>What the builder renders\<close>

record field_type =
  ft_label :: string
  ft_value :: string
  needsOptions :: "bool option"
  systemOnly :: "bool option"
  isTextType :: "bool option"

definition FieldTypes :: "field_type list" where
  "FieldTypes =
    [\<lparr>ft_label = ''Name'', ft_value = ''name'',
        needsOptions = None, systemOnly = None, isTextType = Some True\<rparr>,
     \<lparr>ft_label = ''Email'', ft_value = ''email'',
        needsOptions = None, systemOnly = None, isTextType = Some True\<rparr>,
     \<lparr>ft_label = ''Phone'', ft_value = ''phone'',
        needsOptions = None, systemOnly = None, isTextType = Some True\<rparr>,
     \<lparr>ft_label = ''Short Text'', ft_value = ''text'',
        needsOptions = None, systemOnly = None, isTextType = Some True\<rparr>,
     \<lparr>ft_label = ''Number'', ft_value = ''number'',
        needsOptions = None, systemOnly = None, isTextType = Some True\<rparr>,
     \<lparr>ft_label = ''Long Text'', ft_value = ''textarea'',
        needsOptions = None, systemOnly = None, isTextType = Some True\<rparr>,
     \<lparr>ft_label = ''Select'', ft_value = ''select'',
        needsOptions = Some True, systemOnly = None, isTextType = Some True\<rparr>,
     \<lparr>ft_label = ''MultiSelect'', ft_value = ''multiselect'',
        needsOptions = Some True, systemOnly = None, isTextType = Some False\<rparr>,
     \<lparr>ft_label = ''Multiple Emails'', ft_value = ''multiemail'',
        needsOptions = None, systemOnly = None, isTextType = Some True\<rparr>,
     \<lparr>ft_label = ''Radio Input'', ft_value = ''radioInput'',
        needsOptions = None, systemOnly = Some True, isTextType = Some False\<rparr>,
     \<lparr>ft_label = ''Checkbox Group'', ft_value = ''checkbox'',
        needsOptions = Some True, systemOnly = None, isTextType = Some False\<rparr>,
     \<lparr>ft_label = ''Radio Group'', ft_value = ''radio'',
        needsOptions = Some True, systemOnly = None, isTextType = Some False\<rparr>,
     \<lparr>ft_label = ''Checkbox'', ft_value = ''boolean'',
        needsOptions = None, systemOnly = None, isTextType = Some False\<rparr>]"

text \<open>
  The controls in the right-hand block of a row, in the order of the source. The switch
  carries its \<^verbatim>\<open>checked\<close> prop. A control that is not in the list is not in the page.
\<close>

datatype control = HiddenSwitch bool | EditButton | DeleteButton

definition rowControls :: "field \<Rightarrow> control list" where
  "rowControls field =
    (if editable field \<noteq> Some UserReadonly then
       (if editable field \<noteq> Some System then [HiddenSwitch (\<not> truthy (hidden field))] else [])
       @ [EditButton]
       @ (if editable field \<noteq> Some System \<and> editable field \<noteq> Some SystemButOptional
          then [DeleteButton] else [])
     else [])"

text \<open>
  One row of the list: the badge text, whether the Hidden badge shows, the label of the
  field's type, and the controls. A type that is not in \<^verbatim>\<open>FieldTypes\<close> throws.
\<close>

record row =
  badge :: string
  hiddenBadge :: bool
  typeLabel :: string
  controls :: "control list"

definition renderRow :: "field \<Rightarrow> error + row" where
  "renderRow field =
    (let fieldType = find (\<lambda>f. ft_value f = type field) FieldTypes;
         isRequired = (truthy (required field) \<and> \<not> truthy (hidden field))
     in case fieldType of
          None \<Rightarrow> Inl (InvalidFieldType (type field))
        | Some ft \<Rightarrow>
            Inr \<lparr>badge = (if isRequired then ''Required'' else ''Optional''),
                 hiddenBadge = truthy (hidden field),
                 typeLabel = ft_label ft,
                 controls = rowControls field\<rparr>)"

text \<open>
  The \<^verbatim>\<open>isDisabled\<close> of the dialog's type selector, the \<^verbatim>\<open>disabled\<close> of its name
  input and of its required toggle: each reads \<^verbatim>\<open>fieldForm.getValues("editable")\<close>.
\<close>

definition getValues_editable :: "builder \<Rightarrow> editable_class option" where
  "getValues_editable s = (case fieldForm s of None \<Rightarrow> None | Some d \<Rightarrow> editable d)"

definition typeSelectDisabled :: "builder \<Rightarrow> bool" where
  "typeSelectDisabled s =
    (getValues_editable s = Some System \<or> getValues_editable s = Some SystemButOptional)"

definition nameInputDisabled :: "builder \<Rightarrow> bool" where
  "nameInputDisabled s =
    (getValues_editable s = Some System \<or> getValues_editable s = Some SystemButOptional)"

definition requiredToggleDisabled :: "builder \<Rightarrow> bool" where
  "requiredToggleDisabled s = (getValues_editable s = Some System)"

text \<open>
  A builder with two fields, the first a system field, and the dialog closed: the state
  of the concrete scenarios.
\<close>

definition two_fields :: builder where
  "two_fields =
    \<lparr>fields_arr = [(blank_field ''name'' ''name'')\<lparr>editable := Some System\<rparr>,
                   blank_field ''notes'' ''textarea''],
     fieldDialog = \<lparr>isOpen = False, fieldIndex = - 1\<rparr>,
     fieldForm = None\<rparr>"

section \<open>The request guard chain\<close>

subsection \<open>Requests, results and the world\<close>

text \<open>
  \<^verbatim>\<open>createContext\<close> is not among the sources. The guards read \<^verbatim>\<open>ctx.user\<close> (its
  \<^verbatim>\<open>id\<close> and \<^verbatim>\<open>role\<close>) and test \<^verbatim>\<open>ctx.session\<close> for presence, so the session's
  content is a type parameter. \<open>None\<close> is \<^verbatim>\<open>null\<close> or \<^verbatim>\<open>undefined\<close>.
\<close>

record ctx_user =
  user_id :: int
  role :: string

record 's ctx =
  user :: "ctx_user option"
  session :: "'s option"

text \<open>What a middleware is called with, besides \<^verbatim>\<open>next\<close>.\<close>

record 's call =
  ctx :: "'s ctx"
  rawInput :: js_value
  path :: string
  call_type :: string

text \<open>
  A \<^verbatim>\<open>TRPCError\<close> is its code. An error that is not a \<^verbatim>\<open>TRPCError\<close> reaches the
  caller as \<^verbatim>\<open>INTERNAL_SERVER_ERROR\<close>. A result is \<open>Inl code\<close> for \<^verbatim>\<open>{ ok: false }\<close>
  and \<open>Inr data\<close> for \<^verbatim>\<open>{ ok: true }\<close>.
\<close>

datatype trpc_code = UNAUTHORIZED | BAD_REQUEST | TOO_MANY_REQUESTS | INTERNAL_SERVER_ERROR

datatype perf_entry = Mark string | Measure string string string

record membership_row =
  userId :: int
  teamId :: int

text \<open>
  Everything a request can read or change outside its own arguments: the entries of
  \<^verbatim>\<open>performance\<close>, the rows of the membership table behind \<^verbatim>\<open>prisma\<close>, and the state
  \<open>app\<close> that the handler and the rate limiter work on.
\<close>

record 'h world =
  performance :: "perf_entry list"
  membership :: "membership_row list"
  app :: 'h

type_synonym ('a, 'h) outcome = "(trpc_code + 'a) \<times> 'h world"

type_synonym ('s, 'a, 'h) next_fn = "'s ctx \<Rightarrow> 'h world \<Rightarrow> ('a, 'h) outcome"

type_synonym ('s, 'a, 'h) middleware =
  "'s call \<Rightarrow> ('s, 'a, 'h) next_fn \<Rightarrow> 'h world \<Rightarrow> ('a, 'h) outcome"

type_synonym ('s, 'a, 'h) handler = "'s call \<Rightarrow> 'h world \<Rightarrow> ('a, 'h) outcome"

subsection \<open>Composition\<close>

text \<open>
  Modelled from the spec: the procedure builder of \<^verbatim>\<open>@trpc/server\<close>
  (\<^verbatim>\<open>t.procedure\<close>, \<^verbatim>\<open>use\<close>, \<^verbatim>\<open>unstable_pipe\<close>) is missing. The spec: "Stages compose
  left-to-right"; "Rejection at any stage aborts the pipeline immediately"; a stage that
  passes "narrows context" for the stages after it. So \<^verbatim>\<open>next\<close> of a stage is the rest
  of the pipeline, called with the context the stage hands on; \<^verbatim>\<open>next()\<close> hands on the
  context unchanged; a stage that throws never calls it.
\<close>

definition procedure :: "('s, 'a, 'h) middleware" where
  "procedure c next = next (ctx c)"

text \<open>
  Modelled from the spec: \<^verbatim>\<open>use\<close> of the procedure builder is missing. "Stages compose
  left-to-right": the stage added last runs inside \<^verbatim>\<open>next\<close> of the stages before it, on
  the context they hand on.
\<close>

definition use :: "('s, 'a, 'h) middleware \<Rightarrow> ('s, 'a, 'h) middleware \<Rightarrow> ('s, 'a, 'h) middleware" where
  "use m1 m2 c next = m1 c (\<lambda>ctx'. m2 (c\<lparr>ctx := ctx'\<rparr>) next)"

text \<open>
  Modelled from the spec: \<^verbatim>\<open>unstable_pipe\<close> of a middleware is missing. The role stage
  "composes after authentication": the piped function is the next stage.
\<close>

definition unstable_pipe :: "('s, 'a, 'h) middleware \<Rightarrow> ('s, 'a, 'h) middleware \<Rightarrow> ('s, 'a, 'h) middleware" where
  "unstable_pipe m1 m2 = use m1 m2"

text \<open>
  Modelled from the spec: \<^verbatim>\<open>query\<close> and \<^verbatim>\<open>mutation\<close> of the procedure builder are
  missing. The handler is what the last stage's \<^verbatim>\<open>next\<close> runs: "later stages and the
  handler body never execute" after a rejection.
\<close>

definition resolve :: "('s, 'a, 'h) middleware \<Rightarrow> ('s, 'a, 'h) handler \<Rightarrow> ('s, 'a, 'h) handler" where
  "resolve p handler c = p c (\<lambda>ctx'. handler (c\<lparr>ctx := ctx'\<rparr>))"

subsection \<open>The stages\<close>

definition mark :: "perf_entry \<Rightarrow> 'h world \<Rightarrow> 'h world" where
  "mark e w = w\<lparr>performance := performance w @ [e]\<rparr>"

text \<open>The name of the measurement: \<^verbatim>\<open>[${result.ok ? "OK" : "ERROR"}][$1] ${type} '${path}'\<close>\<close>

definition measure_name :: "bool \<Rightarrow> string \<Rightarrow> string \<Rightarrow> string" where
  "measure_name ok t p =
    ''['' @ (if ok then ''OK'' else ''ERROR'') @ ''][$1] '' @ t @ '' '' @ [CHR 0x27] @ p @ [CHR 0x27]"

text \<open>
  The instrumentation stage reads \<^verbatim>\<open>result.ok\<close> of what \<^verbatim>\<open>next()\<close> returns: a throw of a
  later stage reaches it as a result that is not ok. Times are not kept: a measurement is
  its name and the two marks it spans.
\<close>

definition perfMiddleware :: "('s, 'a, 'h) middleware" where
  "perfMiddleware c next w =
    (let w1 = mark (Mark ''Start'') w;
         (result, w2) = next (ctx c) w1;
         w3 = mark (Mark ''End'') w2;
         w4 = mark (Measure (measure_name (\<not> isl result) (call_type c) (path c)) ''Start'' ''End'') w3
     in (result, w4))"

definition isAuthedMiddleware :: "('s, 'a, 'h) middleware" where
  "isAuthedMiddleware c next w =
    (if user (ctx c) = None \<or> session (ctx c) = None then (Inl UNAUTHORIZED, w)
     else next ((ctx c)\<lparr>session := session (ctx c), user := user (ctx c)\<rparr>) w)"

text \<open>
  The function piped after \<^verbatim>\<open>isAuthedMiddleware\<close>. Its \<^verbatim>\<open>ctx.user\<close> is typed
  non-null; read on a context without a user, \<^verbatim>\<open>ctx.user.role\<close> is a TypeError.
\<close>

definition isAdmin_fn :: "('s, 'a, 'h) middleware" where
  "isAdmin_fn c next w =
    (case user (ctx c) of
       None \<Rightarrow> (Inl INTERNAL_SERVER_ERROR, w)
     | Some u \<Rightarrow>
         if role u \<noteq> ''ADMIN'' then (Inl UNAUTHORIZED, w)
         else next ((ctx c)\<lparr>user := Some u\<rparr>) w)"

definition isAdminMiddleware :: "('s, 'a, 'h) middleware" where
  "isAdminMiddleware = unstable_pipe isAuthedMiddleware isAdmin_fn"

text \<open>
  \<^verbatim>\<open>rateLimit({ intervalInMs }).check(limit, ctx.user.id.toString())\<close> is not among the
  sources: the limiter is the parameter \<open>rateLimit\<close>, given the interval, the limit and
  the user's id, answering \<^verbatim>\<open>isRateLimited\<close> and the world it leaves.
\<close>

type_synonym 'h rate_limiter = "int \<Rightarrow> int \<Rightarrow> int \<Rightarrow> 'h world \<Rightarrow> bool \<times> 'h world"

definition isRateLimitedByUserIdMiddleware ::
  "'h rate_limiter \<Rightarrow> int \<Rightarrow> int \<Rightarrow> ('s, 'a, 'h) middleware" where
  "isRateLimitedByUserIdMiddleware rateLimit intervalInMs limit c next w =
    (case user (ctx c) of
       None \<Rightarrow> (Inl UNAUTHORIZED, w)
     | Some u \<Rightarrow>
         (let (isRateLimited, w1) = rateLimit intervalInMs limit (user_id u) w in
          if isRateLimited then (Inl TOO_MANY_REQUESTS, w1)
          else next ((ctx c)\<lparr>session := session (ctx c), user := Some u\<rparr>) w1))"

text \<open>
  A number, as \<^verbatim>\<open>Number\<close> answers it and as the parsed input holds it.
\<close>

datatype js_number = Finite real | NonFinite non_finite

text \<open>
  \<^verbatim>\<open>z.coerce.number()\<close> applies JavaScript's \<^verbatim>\<open>Number\<close> to the input. \<^verbatim>\<open>Number\<close> is a
  built-in; what it does is written out here for every value but a string, whose number
  (\<^verbatim>\<open>StringToNumber\<close>: white space, signs, fractions, exponents, other radixes, rounded
  to a double) is the parameter \<open>str_num\<close>: the number of the one string that \<^verbatim>\<open>Number\<close>
  has to read, if it has to read one.

  \<open>parse_ToString str_num v\<close> is the number read from the string of \<open>v\<close>, where \<open>v\<close> has
  one: the string of a number reads as that number, \<^verbatim>\<open>true\<close>, \<^verbatim>\<open>undefined\<close>,
  \<^verbatim>\<open>[object Object]\<close> and anything with a comma read as \<^verbatim>\<open>NaN\<close>, the empty string
  reads as 0, and \<^verbatim>\<open>join\<close> gives the empty string for no element and for an element
  that is \<^verbatim>\<open>undefined\<close> or \<^verbatim>\<open>null\<close>.
\<close>

fun parse_ToString :: "js_number \<Rightarrow> js_value \<Rightarrow> js_number" where
  "parse_ToString str_num (JArray []) = Finite 0"
| "parse_ToString str_num (JArray [JUndefined]) = Finite 0"
| "parse_ToString str_num (JArray [JNull]) = Finite 0"
| "parse_ToString str_num (JArray [x]) = parse_ToString str_num x"
| "parse_ToString str_num (JArray (x # y # zs)) = NonFinite NaN"
| "parse_ToString str_num (JNumber r) = Finite r"
| "parse_ToString str_num (JNonFinite x) = NonFinite x"
| "parse_ToString str_num (JString s) = str_num"
| "parse_ToString str_num v = NonFinite NaN"

text \<open>
  \<^verbatim>\<open>Number(v)\<close>: it answers a number or throws a TypeError. A primitive is converted
  directly; an array or an object is first made a primitive (\<^verbatim>\<open>valueOf\<close> answers the
  object itself, so its string is taken, and taking it can throw) and that string is read.
\<close>

datatype coercion = Throws | Coerced js_number

fun ToNumber :: "js_number \<Rightarrow> js_value \<Rightarrow> coercion" where
  "ToNumber str_num JUndefined = Coerced (NonFinite NaN)"
| "ToNumber str_num JNull = Coerced (Finite 0)"
| "ToNumber str_num (JBoolean b) = Coerced (Finite (if b then 1 else 0))"
| "ToNumber str_num (JNumber r) = Coerced (Finite r)"
| "ToNumber str_num (JNonFinite x) = Coerced (NonFinite x)"
| "ToNumber str_num (JString s) = Coerced str_num"
| "ToNumber str_num (JArray vs) =
    (if ToString_throws (JArray vs) then Throws
     else Coerced (parse_ToString str_num (JArray vs)))"
| "ToNumber str_num (JObject kvs) =
    (if ToString_throws (JObject kvs) then Throws
     else Coerced (parse_ToString str_num (JObject kvs)))"

text \<open>
  \<^verbatim>\<open>UserBelongsToTeamInput.safeParse(rawInput)\<close>, for the schema
  \<^verbatim>\<open>z.object({ teamId: z.coerce.number().optional() })\<close>: the input must be an object; a
  \<^verbatim>\<open>teamId\<close> that is missing or \<^verbatim>\<open>undefined\<close> parses to no team id; any other is
  coerced with \<^verbatim>\<open>Number\<close> and must not be \<^verbatim>\<open>NaN\<close> (an infinite or a fractional number
  passes: the schema asks for a number, nothing more). \<^verbatim>\<open>safeParse\<close> catches nothing:
  where \<^verbatim>\<open>Number\<close> throws, \<^verbatim>\<open>safeParse\<close> throws, which is \<open>None\<close> here.
\<close>

datatype parse_result = Failure | Success "js_number option"

definition safeParse :: "js_number \<Rightarrow> js_value \<Rightarrow> parse_result option" where
  "safeParse str_num raw =
    (case raw of
       JObject kvs \<Rightarrow>
         (case map_of kvs ''teamId'' of
            None \<Rightarrow> Some (Success None)
          | Some JUndefined \<Rightarrow> Some (Success None)
          | Some v \<Rightarrow>
              (case ToNumber str_num v of
                 Throws \<Rightarrow> None
               | Coerced (NonFinite NaN) \<Rightarrow> Some Failure
               | Coerced n \<Rightarrow> Some (Success (Some n))))
     | _ \<Rightarrow> Some Failure)"

text \<open>
  Modelled from the spec: the query \<^verbatim>\<open>prisma.membership.findFirst\<close> is missing. The
  spec: a "membership record links the authenticated user to that team". The first row
  with the user's id and the team id is returned; a number that is no row's team id (a
  fraction, an infinity) finds no row; a \<^verbatim>\<open>teamId\<close> that is \<^verbatim>\<open>undefined\<close> puts no
  condition on the team.
\<close>

definition findFirst :: "int \<Rightarrow> js_number option \<Rightarrow> membership_row list \<Rightarrow> membership_row option" where
  "findFirst uid tid rows =
    find (\<lambda>m. userId m = uid \<and>
               (case tid of None \<Rightarrow> True | Some n \<Rightarrow> n = Finite (of_int (teamId m)))) rows"

text \<open>
  The team stage. The input is parsed first, before the context is looked at, so a
  \<^verbatim>\<open>safeParse\<close> that throws ends the stage with that TypeError, which is not a
  \<^verbatim>\<open>TRPCError\<close>.
\<close>

definition userBelongsToTeamMiddleware :: "js_number \<Rightarrow> ('s, 'a, 'h) middleware" where
  "userBelongsToTeamMiddleware str_num c next w =
    (case safeParse str_num (rawInput c) of
       None \<Rightarrow> (Inl INTERNAL_SERVER_ERROR, w)
     | Some parse \<Rightarrow>
         (case user (ctx c) of
            None \<Rightarrow> (Inl UNAUTHORIZED, w)
          | Some u \<Rightarrow>
              if session (ctx c) = None then (Inl UNAUTHORIZED, w)
              else
               (case parse of
                  Failure \<Rightarrow> (Inl BAD_REQUEST, w)
                | Success data \<Rightarrow>
                    (case findFirst (user_id u) data (membership w) of
                       None \<Rightarrow> (Inl UNAUTHORIZED, w)
                     | Some team \<Rightarrow> next (ctx c) w))))"

subsection \<open>The exported procedures\<close>

definition publicProcedure :: "('s, 'a, 'h) middleware" where
  "publicProcedure = use procedure perfMiddleware"

definition authedProcedure :: "('s, 'a, 'h) middleware" where
  "authedProcedure = use (use procedure perfMiddleware) isAuthedMiddleware"

definition authedRateLimitedProcedure ::
  "'h rate_limiter \<Rightarrow> int \<Rightarrow> int \<Rightarrow> ('s, 'a, 'h) middleware" where
  "authedRateLimitedProcedure rateLimit intervalInMs limit =
    use (use (use procedure perfMiddleware) isAuthedMiddleware)
      (isRateLimitedByUserIdMiddleware rateLimit intervalInMs limit)"

definition authedAdminProcedure :: "('s, 'a, 'h) middleware" where
  "authedAdminProcedure = use (use procedure perfMiddleware) isAdminMiddleware"

definition userBelongsToTeamProcedure :: "js_number \<Rightarrow> ('s, 'a, 'h) middleware" where
  "userBelongsToTeamProcedure str_num =
    use (use (use procedure perfMiddleware) isAuthedMiddleware)
      (userBelongsToTeamMiddleware str_num)"

subsection \<open>Requests and handlers of the scenarios\<close>

text \<open>
  A handler that answers the number of calls made before and counts its own: whether it
  ran can be read off \<open>app\<close>.
\<close>

definition counting_handler :: "('s, nat, nat) handler" where
  "counting_handler c w = (Inr (app w), w\<lparr>app := app w + 1\<rparr>)"

text \<open>A member asking for team 5, an administrator, and a request without a session.\<close>

definition member_call :: "unit call" where
  "member_call =
    \<lparr>ctx = \<lparr>user = Some \<lparr>user_id = 7, role = ''USER''\<rparr>, session = Some ()\<rparr>,
     rawInput = JObject [(''teamId'', JNumber 5)],
     path = ''viewer.teams.get'',
     call_type = ''query''\<rparr>"

definition admin_call :: "unit call" where
  "admin_call =
    \<lparr>ctx = \<lparr>user = Some \<lparr>user_id = 1, role = ''ADMIN''\<rparr>, session = Some ()\<rparr>,
     rawInput = JUndefined,
     path = ''viewer.admin.list'',
     call_type = ''query''\<rparr>"

definition anonymous_call :: "unit call" where
  "anonymous_call =
    \<lparr>ctx = \<lparr>user = None, session = None\<rparr>,
     rawInput = JUndefined,
     path = ''viewer.me'',
     call_type = ''query''\<rparr>"

definition world_with :: "membership_row list \<Rightarrow> nat world" where
  "world_with rows = \<lparr>performance = [], membership = rows, app = 0\<rparr>"

section \<open>Properties of the component dispatcher\<close>

subsection \<open>The value check\<close>

lemma typeof_string_iff: "typeof v = ''string'' \<longleftrightarrow> (\<exists>s. v = JString s)"
  by (cases v) simp_all

lemma typeof_boolean_iff: "typeof v = ''boolean'' \<longleftrightarrow> (\<exists>b. v = JBoolean b)"
  by (cases v) simp_all

lemma every_string_iff:
  "every_string v \<longleftrightarrow> (\<exists>vs. v = JArray vs \<and> list_all (\<lambda>x. \<exists>s. x = JString s) vs)"
  by (cases v) (simp_all add: typeof_string_iff)

lemma object_with_value_iff:
  "(if typeof v = ''object'' \<and> v \<noteq> JNull then has_key ''value'' v else False) \<longleftrightarrow>
   (\<exists>kvs. v = JObject kvs \<and> ''value'' \<in> fst ` set kvs)"
  by (cases v) simp_all

lemma isValueOfPropsType_unknown:
  "pt \<notin> set known_propsTypes \<Longrightarrow> isValueOfPropsType value val pt = Inl (UnknownPropsType pt)"
  by (simp add: isValueOfPropsType_def known_propsTypes_def)

lemma isValueOfPropsType_shapes:
  "isValueOfPropsType value val ''text'' = Inr (\<exists>s. val = JString s)"
  "isValueOfPropsType value val ''select'' = Inr (\<exists>s. val = JString s)"
  "isValueOfPropsType value val ''boolean'' = Inr (\<exists>b. val = JBoolean b)"
  "isValueOfPropsType value val ''textList'' =
     Inr (\<exists>vs. val = JArray vs \<and> list_all (\<lambda>x. \<exists>s. x = JString s) vs)"
  "isValueOfPropsType value val ''multiselect'' =
     Inr (\<exists>vs. val = JArray vs \<and> list_all (\<lambda>x. \<exists>s. x = JString s) vs)"
  "isValueOfPropsType value val ''objectiveWithInput'' =
     Inr (\<exists>kvs. value = JObject kvs \<and> ''value'' \<in> fst ` set kvs)"
  unfolding isValueOfPropsType_def
  by (simp_all add: typeof_string_iff typeof_boolean_iff every_string_iff object_with_value_iff
        del: typeof.simps every_string.simps has_key.simps)

lemma render_branches_unknown:
  "propsType cfg \<notin> set known_propsTypes \<Longrightarrow>
   render_branches cfg field value readOnly = Inl (NoValidPropsType (name field))"
  by (simp add: render_branches_def known_propsTypes_def)

lemma ComponentForField_absent:
  "comps (type field) = Some cfg \<Longrightarrow>
   ComponentForField comps field JUndefined readOnly = render_branches cfg field JUndefined readOnly"
  by (simp add: ComponentForField_def)

lemma ComponentForField_mismatch:
  "comps (type field) = Some cfg \<Longrightarrow> value \<noteq> JUndefined \<Longrightarrow>
   isValueOfPropsType value value (propsType cfg) = Inr False \<Longrightarrow>
   \<not> ToString_throws value \<Longrightarrow>
   ComponentForField comps field value readOnly =
     Inl (ValueNotValid value (propsType cfg) (name field))"
  by (simp add: ComponentForField_def)

lemma ComponentForField_mismatch_no_string:
  "comps (type field) = Some cfg \<Longrightarrow> value \<noteq> JUndefined \<Longrightarrow>
   isValueOfPropsType value value (propsType cfg) = Inr False \<Longrightarrow>
   ToString_throws value \<Longrightarrow>
   ComponentForField comps field value readOnly = Inl TypeError"
  by (simp add: ComponentForField_def)

lemma ComponentForField_match:
  "comps (type field) = Some cfg \<Longrightarrow>
   value = JUndefined \<or> isValueOfPropsType value value (propsType cfg) = Inr True \<Longrightarrow>
   ComponentForField comps field value readOnly = render_branches cfg field value readOnly"
  by (auto simp add: ComponentForField_def)

lemma ComponentForField_unknown:
  "comps (type field) = Some cfg \<Longrightarrow> value \<noteq> JUndefined \<Longrightarrow>
   propsType cfg \<notin> set known_propsTypes \<Longrightarrow>
   ComponentForField comps field value readOnly = Inl (UnknownPropsType (propsType cfg))"
  by (simp add: ComponentForField_def isValueOfPropsType_unknown)

lemma ComponentForField_cases:
  assumes "comps (type field) = Some cfg" and "propsType cfg \<in> set known_propsTypes"
  shows "ComponentForField comps field value readOnly =
           Inl (ValueNotValid value (propsType cfg) (name field)) \<or>
         ComponentForField comps field value readOnly = Inl TypeError \<or>
         ComponentForField comps field value readOnly = render_branches cfg field value readOnly"
proof -
  from assms(2) obtain b where b: "isValueOfPropsType value value (propsType cfg) = Inr b"
    by (auto simp add: isValueOfPropsType_def known_propsTypes_def)
  show ?thesis
  proof (cases "value \<noteq> JUndefined \<and> \<not> b")
    case True
    with b assms(1) show ?thesis
      by (cases "ToString_throws value")
        (simp_all add: ComponentForField_mismatch ComponentForField_mismatch_no_string)
  next
    case False
    with b assms(1) have
      "ComponentForField comps field value readOnly = render_branches cfg field value readOnly"
      by (intro ComponentForField_match) auto
    then show ?thesis by simp
  qed
qed

subsection \<open>Missing and empty options\<close>

lemma render_branches_select_absent:
  "propsType cfg = ''select'' \<or> propsType cfg = ''multiselect'' \<Longrightarrow> options field = None \<Longrightarrow>
   render_branches cfg field value readOnly = Inl OptionsNotDefined"
  by (auto simp add: render_branches_def)

lemma render_branches_select_empty:
  "propsType cfg = ''select'' \<or> propsType cfg = ''multiselect'' \<Longrightarrow> options field = Some [] \<Longrightarrow>
   render_branches cfg field value readOnly =
     Inr (WithLabel field readOnly
       (if propsType cfg = ''select'' then SelectComponent readOnly value (placeholder field) []
        else MultiselectComponent (placeholder field) readOnly value []))"
  by (auto simp add: render_branches_def)

text \<open>
  C1 (as amended). For every field whose type resolves to the \<^verbatim>\<open>select\<close> or the
  \<^verbatim>\<open>multiselect\<close> contract: with \<^verbatim>\<open>options\<close> absent the dispatcher fails fatally, whatever
  the value (with \<^verbatim>\<open>Field options is not defined\<close> when the value is absent or passes the
  value check); with \<^verbatim>\<open>options\<close> the empty list and a value that is absent or passes
  the value check it does not fail: it mounts the component with an empty list of
  options. The guard is \<^verbatim>\<open>!field.options\<close>, and an empty array is truthy.
\<close>

theorem select_options_absent_or_empty:
  assumes cfg: "comps (type field) = Some cfg"
    and sel: "propsType cfg = ''select'' \<or> propsType cfg = ''multiselect''"
  shows "(options field = None \<longrightarrow>
            isl (ComponentForField comps field value readOnly) \<and>
            (value = JUndefined \<or> isValueOfPropsType value value (propsType cfg) = Inr True \<longrightarrow>
               ComponentForField comps field value readOnly = Inl OptionsNotDefined)) \<and>
         (options field = Some [] \<and>
            (value = JUndefined \<or> isValueOfPropsType value value (propsType cfg) = Inr True) \<longrightarrow>
            ComponentForField comps field value readOnly =
              Inr (WithLabel field readOnly
                (if propsType cfg = ''select''
                 then SelectComponent readOnly value (placeholder field) []
                 else MultiselectComponent (placeholder field) readOnly value [])))"
proof -
  from sel have known: "propsType cfg \<in> set known_propsTypes"
    by (auto simp add: known_propsTypes_def)
  have absent: "isl (ComponentForField comps field value readOnly)" if "options field = None"
    using ComponentForField_cases [of comps field cfg "value" readOnly] cfg known
      render_branches_select_absent [OF sel that, of "value" readOnly]
    by auto
  have absent_ok: "ComponentForField comps field value readOnly = Inl OptionsNotDefined"
    if "options field = None"
      and "value = JUndefined \<or> isValueOfPropsType value value (propsType cfg) = Inr True"
    using ComponentForField_match [of comps field cfg "value" readOnly] cfg that(2)
      render_branches_select_absent [OF sel that(1), of "value" readOnly]
    by simp
  have empty: "ComponentForField comps field value readOnly =
      Inr (WithLabel field readOnly
        (if propsType cfg = ''select''
         then SelectComponent readOnly value (placeholder field) []
         else MultiselectComponent (placeholder field) readOnly value []))"
    if "options field = Some []"
      and "value = JUndefined \<or> isValueOfPropsType value value (propsType cfg) = Inr True"
    using ComponentForField_match [of comps field cfg "value" readOnly] cfg that(2)
      render_branches_select_empty [OF sel that(1), of "value" readOnly]
    by simp
  from absent absent_ok empty show ?thesis by blast
qed

text \<open>
  The theorem at the field \<^verbatim>\<open>city\<close> of type \<^verbatim>\<open>select\<close> without options: a number as
  value and a string as value both fail.
\<close>

theorem select_options_absent_or_empty_witness:
  "isl (ComponentForField Components (blank_field ''city'' ''select'') (JNumber 7) True) \<and>
   ComponentForField Components (blank_field ''city'' ''select'') (JString ''Oslo'') True =
     Inl OptionsNotDefined"
  using select_options_absent_or_empty
    [of Components "blank_field ''city'' ''select''" "\<lparr>propsType = ''select''\<rparr>" "JNumber 7" True]
    select_options_absent_or_empty
    [of Components "blank_field ''city'' ''select''" "\<lparr>propsType = ''select''\<rparr>" "JString ''Oslo''" True]
  by (simp add: Components_def blank_field_def isValueOfPropsType_def)

text \<open>
  C1 as stated fails: for \<^verbatim>\<open>field.type = "select"\<close> and \<^verbatim>\<open>field.options = []\<close> the
  dispatcher does not throw; it returns the select component with no options.
\<close>

theorem select_empty_options_counterexample:
  "\<not> isl (ComponentForField Components
            ((blank_field ''city'' ''select'')\<lparr>options := Some []\<rparr>) JUndefined False) \<and>
   ComponentForField Components
     ((blank_field ''city'' ''select'')\<lparr>options := Some []\<rparr>) JUndefined False =
   Inr (WithLabel ((blank_field ''city'' ''select'')\<lparr>options := Some []\<rparr>) False
          (SelectComponent False JUndefined None []))"
  by (simp add: ComponentForField_def render_branches_def Components_def blank_field_def)

subsection \<open>Accepting and rejecting a value\<close>

lemma render_branches_text:
  "propsType cfg = ''text'' \<Longrightarrow>
   render_branches cfg field value readOnly =
     Inr (WithLabel field readOnly
       (TextComponent (placeholder field) (label field) readOnly (name field) value))"
  by (simp add: render_branches_def)

lemma render_branches_no_check_error:
  "render_branches cfg field value readOnly \<noteq> Inl (ValueNotValid v p n)"
  "render_branches cfg field value readOnly \<noteq> Inl (UnknownPropsType p)"
  by (simp_all add: render_branches_def split: option.splits)

lemma ComponentForField_unknown_fails:
  assumes "comps (type field) = Some cfg" and "propsType cfg \<notin> set known_propsTypes"
  shows "isl (ComponentForField comps field value readOnly)"
proof (cases "value = JUndefined")
  case True
  with assms show ?thesis
    by (simp add: ComponentForField_absent render_branches_unknown)
next
  case False
  with assms show ?thesis
    by (simp add: ComponentForField_unknown)
qed

lemma ComponentForField_text_examples:
  assumes "comps (type field) = Some cfg" and "propsType cfg = ''text''"
  shows "ComponentForField comps field (JString ''hello'') readOnly =
           Inr (WithLabel field readOnly
             (TextComponent (placeholder field) (label field) readOnly (name field)
               (JString ''hello'')))"
    and "ComponentForField comps field (JNumber 42) readOnly =
           Inl (ValueNotValid (JNumber 42) ''text'' (name field))"
  using assms
  by (simp_all add: ComponentForField_def isValueOfPropsType_def render_branches_text)

text \<open>
  What the value check does, for every field whose type has a component configuration:
  \<^item> a supplied value (not \<^verbatim>\<open>undefined\<close>) that the shape predicate of the resolved
    \<^verbatim>\<open>propsType\<close> rejects makes the dispatcher throw: the error that names the value, the
    \<^verbatim>\<open>propsType\<close> and the field's name when the value has a string conversion, a
    TypeError when it has none;
  \<^item> a supplied value with a \<^verbatim>\<open>propsType\<close> outside the six known ones throws
    \<^verbatim>\<open>Unknown propsType\<close>, and an unknown \<^verbatim>\<open>propsType\<close> throws for an absent value too;
  \<^item> an absent value goes to the branches as it is: neither error of the check can come
    out;
  \<^item> the shape predicate is: a string for \<^verbatim>\<open>text\<close> and \<^verbatim>\<open>select\<close>, a boolean for
    \<^verbatim>\<open>boolean\<close>, an array of strings for \<^verbatim>\<open>textList\<close> and \<^verbatim>\<open>multiselect\<close>, an object
    with a key \<^verbatim>\<open>value\<close> for \<^verbatim>\<open>objectiveWithInput\<close>;
  \<^item> when the type resolves to \<^verbatim>\<open>text\<close>, the value \<^verbatim>\<open>"hello"\<close> is accepted and mounted,
    and the value \<^verbatim>\<open>42\<close> is fatally rejected.
\<close>

lemma value_check_cases:
  assumes cfg: "comps (type field) = Some cfg"
  shows "(value \<noteq> JUndefined \<and> isValueOfPropsType value value (propsType cfg) = Inr False \<longrightarrow>
            isl (ComponentForField comps field value readOnly) \<and>
            (\<not> ToString_throws value \<longrightarrow>
               ComponentForField comps field value readOnly =
                 Inl (ValueNotValid value (propsType cfg) (name field))) \<and>
            (ToString_throws value \<longrightarrow>
               ComponentForField comps field value readOnly = Inl TypeError)) \<and>
         (value \<noteq> JUndefined \<and> propsType cfg \<notin> set known_propsTypes \<longrightarrow>
            ComponentForField comps field value readOnly =
              Inl (UnknownPropsType (propsType cfg))) \<and>
         (propsType cfg \<notin> set known_propsTypes \<longrightarrow>
            isl (ComponentForField comps field value readOnly)) \<and>
         (ComponentForField comps field JUndefined readOnly =
            render_branches cfg field JUndefined readOnly \<and>
          (\<forall>v p n. ComponentForField comps field JUndefined readOnly \<noteq>
                     Inl (ValueNotValid v p n)) \<and>
          (\<forall>p. ComponentForField comps field JUndefined readOnly \<noteq>
                     Inl (UnknownPropsType p))) \<and>
         (isValueOfPropsType value value ''text'' = Inr (\<exists>s. value = JString s) \<and>
          isValueOfPropsType value value ''select'' = Inr (\<exists>s. value = JString s) \<and>
          isValueOfPropsType value value ''boolean'' = Inr (\<exists>b. value = JBoolean b) \<and>
          isValueOfPropsType value value ''textList'' =
            Inr (\<exists>vs. value = JArray vs \<and> list_all (\<lambda>x. \<exists>s. x = JString s) vs) \<and>
          isValueOfPropsType value value ''multiselect'' =
            Inr (\<exists>vs. value = JArray vs \<and> list_all (\<lambda>x. \<exists>s. x = JString s) vs) \<and>
          isValueOfPropsType value value ''objectiveWithInput'' =
            Inr (\<exists>kvs. value = JObject kvs \<and> ''value'' \<in> fst ` set kvs)) \<and>
         (propsType cfg = ''text'' \<longrightarrow>
            ComponentForField comps field (JString ''hello'') readOnly =
              Inr (WithLabel field readOnly
                (TextComponent (placeholder field) (label field) readOnly (name field)
                  (JString ''hello''))) \<and>
            ComponentForField comps field (JNumber 42) readOnly =
              Inl (ValueNotValid (JNumber 42) ''text'' (name field)))"
proof -
  have mismatch: "value \<noteq> JUndefined \<and> isValueOfPropsType value value (propsType cfg) = Inr False \<longrightarrow>
      isl (ComponentForField comps field value readOnly) \<and>
      (\<not> ToString_throws value \<longrightarrow>
         ComponentForField comps field value readOnly =
           Inl (ValueNotValid value (propsType cfg) (name field))) \<and>
      (ToString_throws value \<longrightarrow>
         ComponentForField comps field value readOnly = Inl TypeError)"
    using cfg ComponentForField_mismatch [of comps field cfg "value" readOnly]
      ComponentForField_mismatch_no_string [of comps field cfg "value" readOnly]
    by (cases "ToString_throws value") auto
  have unknown: "value \<noteq> JUndefined \<and> propsType cfg \<notin> set known_propsTypes \<longrightarrow>
      ComponentForField comps field value readOnly = Inl (UnknownPropsType (propsType cfg))"
    using cfg ComponentForField_unknown [of comps field cfg "value" readOnly] by blast
  have fails: "propsType cfg \<notin> set known_propsTypes \<longrightarrow>
      isl (ComponentForField comps field value readOnly)"
    using cfg ComponentForField_unknown_fails [of comps field cfg "value" readOnly] by blast
  have absent: "ComponentForField comps field JUndefined readOnly =
      render_branches cfg field JUndefined readOnly"
    using cfg by (rule ComponentForField_absent)
  have not_checked:
    "\<forall>v p n. ComponentForField comps field JUndefined readOnly \<noteq> Inl (ValueNotValid v p n)"
    "\<forall>p. ComponentForField comps field JUndefined readOnly \<noteq> Inl (UnknownPropsType p)"
    unfolding absent by (simp_all add: render_branches_no_check_error)
  have hello: "propsType cfg = ''text'' \<longrightarrow>
      ComponentForField comps field (JString ''hello'') readOnly =
        Inr (WithLabel field readOnly
          (TextComponent (placeholder field) (label field) readOnly (name field)
            (JString ''hello''))) \<and>
      ComponentForField comps field (JNumber 42) readOnly =
        Inl (ValueNotValid (JNumber 42) ''text'' (name field))"
    using cfg ComponentForField_text_examples [of comps field cfg readOnly] by blast
  from mismatch unknown fails absent not_checked hello
    isValueOfPropsType_shapes [of "value" "value"]
  show ?thesis by (intro conjI)
qed

text \<open>
  C2 (a defect of the code). The claim: every supplied value that the shape predicate
  rejects makes the dispatcher throw an error that names the field and the expected
  \<^verbatim>\<open>propsType\<close>. The code builds that error from a template that converts the rejected
  value to a string first. For the field \<^verbatim>\<open>notes\<close> of type \<^verbatim>\<open>text\<close> and the value
  \<^verbatim>\<open>{ toString: 1 }\<close> the conversion throws, and what the dispatcher throws is that
  TypeError: it names neither the field nor the \<^verbatim>\<open>propsType\<close>.
\<close>

theorem rejected_value_without_string:
  "ComponentForField Components (blank_field ''notes'' ''text'')
     (JObject [(''toString'', JNumber 1)]) False = Inl TypeError \<and>
   ComponentForField Components (blank_field ''notes'' ''text'')
     (JObject [(''toString'', JNumber 1)]) False \<noteq>
     Inl (ValueNotValid (JObject [(''toString'', JNumber 1)]) ''text'' ''notes'')"
  by (simp add: ComponentForField_def isValueOfPropsType_def Components_def blank_field_def)

subsection \<open>The objective-with-input contract\<close>

lemma render_branches_objective:
  assumes "propsType cfg = ''objectiveWithInput''"
  shows "render_branches cfg field value readOnly =
    (case options field of
       None \<Rightarrow> Inl OptionsNotDefined
     | Some os \<Rightarrow>
         (case optionsInputs field of
            None \<Rightarrow> Inl OptionsInputsNotDefined
          | Some ois \<Rightarrow>
              if os \<noteq> [] then
                Inr (WithLabel field readOnly
                  (ObjectiveWithInputComponent (placeholder field) readOnly (name field) value ois os))
              else Inr RenderNull))"
  using assms by (simp add: render_branches_def split: option.splits)




text \<open>
  C10. For the \<^verbatim>\<open>objectiveWithInput\<close> contract the shape predicate does not depend on its
  argument \<^verbatim>\<open>val\<close>: it holds exactly when the dispatcher's own \<^verbatim>\<open>value\<close> is an object
  with a key \<^verbatim>\<open>value\<close>, whatever that member is and whether or not there is an
  \<^verbatim>\<open>optionValue\<close>. Every such value, on a field with options and \<^verbatim>\<open>optionsInputs\<close>, is
  mounted as it is, with no error.
\<close>

theorem objective_shape_is_loose:
  assumes cfg: "comps (type field) = Some cfg"
    and obj: "propsType cfg = ''objectiveWithInput''"
  shows "(\<forall>val. isValueOfPropsType value val ''objectiveWithInput'' =
            Inr (\<exists>kvs. value = JObject kvs \<and> ''value'' \<in> fst ` set kvs)) \<and>
         (\<forall>kvs os ois.
            value = JObject kvs \<and> ''value'' \<in> fst ` set kvs \<and>
            options field = Some os \<and> os \<noteq> [] \<and> optionsInputs field = Some ois \<longrightarrow>
            ComponentForField comps field value readOnly =
              Inr (WithLabel field readOnly
                (ObjectiveWithInputComponent (placeholder field) readOnly (name field)
                  value ois os)))"
proof -
  have shape: "\<forall>val. isValueOfPropsType value val ''objectiveWithInput'' =
      Inr (\<exists>kvs. value = JObject kvs \<and> ''value'' \<in> fst ` set kvs)"
    by (simp add: isValueOfPropsType_shapes)
  have mounted: "ComponentForField comps field value readOnly =
      Inr (WithLabel field readOnly
        (ObjectiveWithInputComponent (placeholder field) readOnly (name field) value ois os))"
    if "value = JObject kvs" "''value'' \<in> fst ` set kvs" "options field = Some os" "os \<noteq> []"
      "optionsInputs field = Some ois" for kvs os ois
  proof -
    from that(1,2) obj have "isValueOfPropsType value value (propsType cfg) = Inr True"
      by (simp add: isValueOfPropsType_shapes)
    then have "ComponentForField comps field value readOnly =
        render_branches cfg field value readOnly"
      using cfg ComponentForField_match [of comps field cfg "value" readOnly] by blast
    with that(3-5) show ?thesis
      by (simp add: render_branches_objective [OF obj])
  qed
  from shape mounted show ?thesis by blast
qed

text \<open>
  The theorem at the value \<^verbatim>\<open>{ value: 42 }\<close>: the predicate holds, also when it is asked
  about another \<^verbatim>\<open>val\<close>, and the component is mounted with that value.
\<close>

theorem objective_shape_is_loose_witness:
  "isValueOfPropsType (JObject [(''value'', JNumber 42)]) (JString ''ignored'') ''objectiveWithInput''
     = Inr True \<and>
   ComponentForField Components
     ((blank_field ''location'' ''objectiveWithInput'')
        \<lparr>options := Some [\<lparr>opt_label = ''Phone'', opt_value = ''phone''\<rparr>], optionsInputs := Some []\<rparr>)
     (JObject [(''value'', JNumber 42)]) False =
   Inr (WithLabel
     ((blank_field ''location'' ''objectiveWithInput'')
        \<lparr>options := Some [\<lparr>opt_label = ''Phone'', opt_value = ''phone''\<rparr>], optionsInputs := Some []\<rparr>)
     False
     (ObjectiveWithInputComponent None False ''location'' (JObject [(''value'', JNumber 42)]) []
        [\<lparr>opt_label = ''Phone'', opt_value = ''phone''\<rparr>]))"
  using objective_shape_is_loose [of Components
      "(blank_field ''location'' ''objectiveWithInput'')
        \<lparr>options := Some [\<lparr>opt_label = ''Phone'', opt_value = ''phone''\<rparr>], optionsInputs := Some []\<rparr>"
      "\<lparr>propsType = ''objectiveWithInput''\<rparr>" "JObject [(''value'', JNumber 42)]" False]
  by (simp add: Components_def blank_field_def)

section \<open>Properties of the schema collection editor\<close>

subsection \<open>Reordering\<close>

lemma swap_in_range:
  assumes "in_range a xs" and "in_range b xs"
  shows "swap a b xs = Some (xs[nat a := xs ! nat b, nat b := xs ! nat a])"
  using assms by (simp add: swap_def)

lemma swap_length: "swap a b xs = Some ys \<Longrightarrow> length ys = length xs"
  by (auto simp add: swap_def split: if_splits)

lemma list_swap_twice:
  assumes "a < length xs" and "b < length xs"
  shows "(xs[a := xs ! b, b := xs ! a])
           [a := xs[a := xs ! b, b := xs ! a] ! b, b := xs[a := xs ! b, b := xs ! a] ! a] = xs"
  using assms by (auto simp add: list_eq_iff_nth_eq nth_list_update)

lemma swap_twice:
  assumes "in_range a xs" and "in_range b xs"
  shows "\<exists>ys. swap a b xs = Some ys \<and> swap a b ys = Some xs"
proof -
  let ?ys = "xs[nat a := xs ! nat b, nat b := xs ! nat a]"
  from assms have a: "nat a < length xs" and b: "nat b < length xs"
    by (auto simp add: in_range_def)
  have first: "swap a b xs = Some ?ys"
    using assms by (rule swap_in_range)
  from assms have "in_range a ?ys" and "in_range b ?ys"
    by (simp_all add: in_range_def)
  then have "swap a b ?ys = Some (?ys[nat a := ?ys ! nat b, nat b := ?ys ! nat a])"
    by (rule swap_in_range)
  also have "?ys[nat a := ?ys ! nat b, nat b := ?ys ! nat a] = xs"
    using a b by (rule list_swap_twice)
  finally show ?thesis using first by blast
qed

lemma swap_commute: "swap a b xs = swap b a xs"
proof (cases "in_range a xs \<and> in_range b xs")
  case True
  then have "nat a < length xs" "nat b < length xs" by (auto simp add: in_range_def)
  then have "xs[nat a := xs ! nat b, nat b := xs ! nat a] = xs[nat b := xs ! nat a, nat a := xs ! nat b]"
    by (auto simp add: list_eq_iff_nth_eq nth_list_update)
  with True show ?thesis by (simp add: swap_def)
next
  case False
  then show ?thesis by (auto simp add: swap_def)
qed

text \<open>
  C9. For every collection and every pair of adjacent indices \<open>i\<close> and \<open>i + 1\<close> inside
  it, \<^verbatim>\<open>swap(i, i + 1)\<close> applied twice gives the collection back. The same holds for the
  buttons: the down button of row \<open>i\<close> pressed twice, and the down button of row \<open>i\<close>
  followed by the up button of row \<open>i + 1\<close>, leave the builder as it was.
\<close>

theorem swap_adjacent_involution:
  assumes "in_range i (fields_arr s)" and "in_range (i + 1) (fields_arr s)"
  shows "(\<exists>ys. swap i (i + 1) (fields_arr s) = Some ys \<and> swap i (i + 1) ys = Some (fields_arr s)) \<and>
         (\<exists>s'. onClickDown i s = Some s' \<and> onClickDown i s' = Some s) \<and>
         (\<exists>s'. onClickDown i s = Some s' \<and> onClickUp (i + 1) s' = Some s)"
proof -
  from swap_twice [OF assms] obtain ys where
    ys: "swap i (i + 1) (fields_arr s) = Some ys" "swap i (i + 1) ys = Some (fields_arr s)"
    by blast
  have down: "onClickDown i s = Some (s\<lparr>fields_arr := ys\<rparr>)"
    using ys(1) by (simp add: onClickDown_def)
  have down2: "onClickDown i (s\<lparr>fields_arr := ys\<rparr>) = Some s"
    using ys(2) by (simp add: onClickDown_def)
  have "swap (i + 1) (i + 1 - 1) ys = swap i (i + 1) ys"
    by (simp add: swap_commute)
  then have up: "onClickUp (i + 1) (s\<lparr>fields_arr := ys\<rparr>) = Some s"
    using ys(2) by (simp add: onClickUp_def)
  from ys down down2 up show ?thesis by blast
qed

text \<open>The theorem at the two-field builder and \<open>i = 0\<close>.\<close>

theorem swap_adjacent_involution_witness:
  "swap 0 1 (fields_arr two_fields) =
     Some [blank_field ''notes'' ''textarea'',
           (blank_field ''name'' ''name'')\<lparr>editable := Some System\<rparr>] \<and>
   swap 0 1 [blank_field ''notes'' ''textarea'',
             (blank_field ''name'' ''name'')\<lparr>editable := Some System\<rparr>] =
     Some (fields_arr two_fields) \<and>
   (\<exists>s'. onClickDown 0 two_fields = Some s' \<and> onClickDown 0 s' = Some two_fields)"
  using swap_adjacent_involution [of 0 two_fields]
  by (simp add: two_fields_def in_range_def swap_def)

subsection \<open>Submitting the dialog\<close>

lemma in_range_nat: "in_range i xs \<Longrightarrow> nat i < length xs"
  by (auto simp add: in_range_def)

lemma update_in_range: "in_range i xs \<Longrightarrow> update i v xs = Some (xs[nat i := v])"
  by (simp add: update_def)

lemma handleSubmit_create:
  assumes "fieldIndex (fieldDialog s) = - 1"
  shows "handleSubmit data s =
    Some (s\<lparr>fields_arr := fields_arr s @
               [data\<lparr>sources := Some [\<lparr>src_label = ''User'', src_type = ''user'', src_id = ''user'',
                                         fieldRequired = required data\<rparr>],
                     editable := (case editable data of None \<Rightarrow> Some User | Some e \<Rightarrow> Some e)\<rparr>],
            fieldDialog := \<lparr>isOpen = False, fieldIndex = - 1\<rparr>\<rparr>)"
  using assms
  by (cases "editable data") (simp_all add: handleSubmit_def append_entry_def user_source_def Let_def)

lemma handleSubmit_edit:
  assumes "fieldIndex (fieldDialog s) \<noteq> - 1" and "in_range (fieldIndex (fieldDialog s)) (fields_arr s)"
  shows "handleSubmit data s =
    Some (s\<lparr>fields_arr := (fields_arr s)[nat (fieldIndex (fieldDialog s)) := data],
            fieldDialog := \<lparr>isOpen = False, fieldIndex = - 1\<rparr>\<rparr>)"
  using assms by (simp add: handleSubmit_def update_in_range Let_def)

text \<open>
  C4. For every draft submitted from the dialog:
  \<^item> in create mode (\<^verbatim>\<open>fieldIndex\<close> is \<^verbatim>\<open>-1\<close>) the collection gains exactly one entry, at
    the end: the draft with \<^verbatim>\<open>sources\<close> set to the single user source, whose
    \<^verbatim>\<open>fieldRequired\<close> is the draft's \<^verbatim>\<open>required\<close>, and with \<^verbatim>\<open>editable\<close> set to
    \<^verbatim>\<open>"user"\<close> when the draft left it unset; every entry that was there stays;
  \<^item> in edit mode, with the bound index inside the collection, the entry at that index
    becomes the draft, the length stays and every other entry stays;
  \<^item> in both, the dialog ends closed with no index bound, and the dialog's form is not
    touched.
\<close>

theorem submit_dialog:
  "(fieldIndex (fieldDialog s) = - 1 \<longrightarrow>
      (\<exists>s'. handleSubmit data s = Some s' \<and>
         fields_arr s' = fields_arr s @
           [data\<lparr>sources := Some [\<lparr>src_label = ''User'', src_type = ''user'', src_id = ''user'',
                                     fieldRequired = required data\<rparr>],
                 editable := (case editable data of None \<Rightarrow> Some User | Some e \<Rightarrow> Some e)\<rparr>] \<and>
         length (fields_arr s') = length (fields_arr s) + 1 \<and>
         (\<forall>j. j < length (fields_arr s) \<longrightarrow> fields_arr s' ! j = fields_arr s ! j) \<and>
         fieldDialog s' = \<lparr>isOpen = False, fieldIndex = - 1\<rparr> \<and>
         fieldForm s' = fieldForm s)) \<and>
   (fieldIndex (fieldDialog s) \<noteq> - 1 \<and> in_range (fieldIndex (fieldDialog s)) (fields_arr s) \<longrightarrow>
      (\<exists>s'. handleSubmit data s = Some s' \<and>
         length (fields_arr s') = length (fields_arr s) \<and>
         fields_arr s' ! nat (fieldIndex (fieldDialog s)) = data \<and>
         (\<forall>j. j < length (fields_arr s) \<and> j \<noteq> nat (fieldIndex (fieldDialog s)) \<longrightarrow>
              fields_arr s' ! j = fields_arr s ! j) \<and>
         fieldDialog s' = \<lparr>isOpen = False, fieldIndex = - 1\<rparr> \<and>
         fieldForm s' = fieldForm s))"
proof (intro conjI impI)
  assume "fieldIndex (fieldDialog s) = - 1"
  then show "\<exists>s'. handleSubmit data s = Some s' \<and>
         fields_arr s' = fields_arr s @
           [data\<lparr>sources := Some [\<lparr>src_label = ''User'', src_type = ''user'', src_id = ''user'',
                                     fieldRequired = required data\<rparr>],
                 editable := (case editable data of None \<Rightarrow> Some User | Some e \<Rightarrow> Some e)\<rparr>] \<and>
         length (fields_arr s') = length (fields_arr s) + 1 \<and>
         (\<forall>j. j < length (fields_arr s) \<longrightarrow> fields_arr s' ! j = fields_arr s ! j) \<and>
         fieldDialog s' = \<lparr>isOpen = False, fieldIndex = - 1\<rparr> \<and>
         fieldForm s' = fieldForm s"
    by (simp add: handleSubmit_create nth_append)
next
  assume "fieldIndex (fieldDialog s) \<noteq> - 1 \<and> in_range (fieldIndex (fieldDialog s)) (fields_arr s)"
  then have ne: "fieldIndex (fieldDialog s) \<noteq> - 1"
    and rng: "in_range (fieldIndex (fieldDialog s)) (fields_arr s)" by simp_all
  from rng have "nat (fieldIndex (fieldDialog s)) < length (fields_arr s)"
    by (rule in_range_nat)
  then show "\<exists>s'. handleSubmit data s = Some s' \<and>
         length (fields_arr s') = length (fields_arr s) \<and>
         fields_arr s' ! nat (fieldIndex (fieldDialog s)) = data \<and>
         (\<forall>j. j < length (fields_arr s) \<and> j \<noteq> nat (fieldIndex (fieldDialog s)) \<longrightarrow>
              fields_arr s' ! j = fields_arr s ! j) \<and>
         fieldDialog s' = \<lparr>isOpen = False, fieldIndex = - 1\<rparr> \<and>
         fieldForm s' = fieldForm s"
    by (simp add: handleSubmit_edit [OF ne rng])
qed

text \<open>
  The theorem at the two-field builder: a new field \<^verbatim>\<open>company\<close> submitted after
  \<^verbatim>\<open>addField\<close>, and a draft \<^verbatim>\<open>remarks\<close> submitted after \<^verbatim>\<open>editField\<close> on row 1.
\<close>

theorem submit_dialog_witness:
  "handleSubmit ((blank_field ''company'' ''text'')\<lparr>required := Some True\<rparr>) (addField two_fields) =
     Some \<lparr>fields_arr =
             [(blank_field ''name'' ''name'')\<lparr>editable := Some System\<rparr>,
              blank_field ''notes'' ''textarea'',
              (blank_field ''company'' ''text'')
                \<lparr>required := Some True, editable := Some User,
                 sources := Some [\<lparr>src_label = ''User'', src_type = ''user'', src_id = ''user'',
                                   fieldRequired = Some True\<rparr>]\<rparr>],
           fieldDialog = \<lparr>isOpen = False, fieldIndex = - 1\<rparr>,
           fieldForm = None\<rparr> \<and>
   handleSubmit (blank_field ''remarks'' ''text'')
       (editField 1 (blank_field ''notes'' ''textarea'') two_fields) =
     Some \<lparr>fields_arr =
             [(blank_field ''name'' ''name'')\<lparr>editable := Some System\<rparr>,
              blank_field ''remarks'' ''text''],
           fieldDialog = \<lparr>isOpen = False, fieldIndex = - 1\<rparr>,
           fieldForm = Some (blank_field ''notes'' ''textarea'')\<rparr>"
  using submit_dialog [of "addField two_fields" "(blank_field ''company'' ''text'')\<lparr>required := Some True\<rparr>"]
    submit_dialog [of "editField 1 (blank_field ''notes'' ''textarea'') two_fields"
      "blank_field ''remarks'' ''text''"]
  by (simp add: handleSubmit_def update_def in_range_def append_entry_def user_source_def
      addField_def editField_def two_fields_def blank_field_def)

subsection \<open>The hidden toggle\<close>

lemma toggleHidden_in_range:
  assumes "in_range i (fields_arr s)"
  shows "toggleHidden i s =
    Some (s\<lparr>fields_arr := (fields_arr s)
              [nat i := (fields_arr s ! nat i)\<lparr>hidden := Some (\<not> truthy (hidden (fields_arr s ! nat i)))\<rparr>]\<rparr>)"
  using assms by (simp add: toggleHidden_def onCheckedChange_def update_in_range Let_def)

text \<open>
  C8. For every index of the collection whose entry is not a system field, the hidden
  toggle replaces the entry by itself with \<^verbatim>\<open>hidden\<close> negated: every other member of the
  entry, every other entry, the length of the collection and the dialog are unchanged.
\<close>

theorem toggle_hidden_frame:
  assumes rng: "in_range i (fields_arr s)"
    and ed: "editable (fields_arr s ! nat i) \<noteq> Some System"
  shows "\<exists>s'. toggleHidden i s = Some s' \<and>
           length (fields_arr s') = length (fields_arr s) \<and>
           fields_arr s' ! nat i =
             (fields_arr s ! nat i)\<lparr>hidden := Some (\<not> truthy (hidden (fields_arr s ! nat i)))\<rparr> \<and>
           truthy (hidden (fields_arr s' ! nat i)) = (\<not> truthy (hidden (fields_arr s ! nat i))) \<and>
           name (fields_arr s' ! nat i) = name (fields_arr s ! nat i) \<and>
           type (fields_arr s' ! nat i) = type (fields_arr s ! nat i) \<and>
           label (fields_arr s' ! nat i) = label (fields_arr s ! nat i) \<and>
           defaultLabel (fields_arr s' ! nat i) = defaultLabel (fields_arr s ! nat i) \<and>
           placeholder (fields_arr s' ! nat i) = placeholder (fields_arr s ! nat i) \<and>
           defaultPlaceholder (fields_arr s' ! nat i) = defaultPlaceholder (fields_arr s ! nat i) \<and>
           required (fields_arr s' ! nat i) = required (fields_arr s ! nat i) \<and>
           editable (fields_arr s' ! nat i) = editable (fields_arr s ! nat i) \<and>
           options (fields_arr s' ! nat i) = options (fields_arr s ! nat i) \<and>
           optionsInputs (fields_arr s' ! nat i) = optionsInputs (fields_arr s ! nat i) \<and>
           sources (fields_arr s' ! nat i) = sources (fields_arr s ! nat i) \<and>
           (\<forall>j. j < length (fields_arr s) \<and> j \<noteq> nat i \<longrightarrow>
                fields_arr s' ! j = fields_arr s ! j) \<and>
           fieldDialog s' = fieldDialog s \<and>
           fieldForm s' = fieldForm s"
proof -
  from rng have "nat i < length (fields_arr s)" by (rule in_range_nat)
  then show ?thesis
    by (simp add: toggleHidden_in_range [OF rng])
qed

text \<open>The theorem at row 1 of the two-field builder, a field that is not hidden.\<close>

theorem toggle_hidden_frame_witness:
  "toggleHidden 1 two_fields =
     Some \<lparr>fields_arr =
             [(blank_field ''name'' ''name'')\<lparr>editable := Some System\<rparr>,
              (blank_field ''notes'' ''textarea'')\<lparr>hidden := Some True\<rparr>],
           fieldDialog = \<lparr>isOpen = False, fieldIndex = - 1\<rparr>,
           fieldForm = None\<rparr>"
  using toggle_hidden_frame [of 1 two_fields]
  by (simp add: toggleHidden_def onCheckedChange_def update_def in_range_def two_fields_def
      blank_field_def)

subsection \<open>System fields\<close>

lemma rowControls_system: "editable field = Some System \<Longrightarrow> rowControls field = [EditButton]"
  by (simp add: rowControls_def)

lemma rowControls_system_but_optional:
  "editable field = Some SystemButOptional \<Longrightarrow>
   rowControls field = [HiddenSwitch (\<not> truthy (hidden field)), EditButton]"
  by (simp add: rowControls_def)

lemma renderRow_controls: "renderRow field = Inr r \<Longrightarrow> controls r = rowControls field"
  by (auto simp add: renderRow_def Let_def split: option.splits)

text \<open>
  C7. For every field with \<^verbatim>\<open>editable = "system"\<close>: its row offers the edit button and
  nothing else, so neither the delete button nor the hidden switch is in the page; and in
  the dialog opened on it by \<^verbatim>\<open>editField\<close> the type selector and the name input are
  disabled. For every field with \<^verbatim>\<open>editable = "system-but-optional"\<close> the delete button
  is not in the page either.
\<close>

theorem system_field_protected:
  "(editable field = Some System \<longrightarrow>
      rowControls field = [EditButton] \<and>
      DeleteButton \<notin> set (rowControls field) \<and>
      (\<forall>c. HiddenSwitch c \<notin> set (rowControls field)) \<and>
      (\<forall>r. renderRow field = Inr r \<longrightarrow> controls r = [EditButton]) \<and>
      typeSelectDisabled (editField index field s) \<and>
      nameInputDisabled (editField index field s)) \<and>
   (editable field = Some SystemButOptional \<longrightarrow>
      DeleteButton \<notin> set (rowControls field) \<and>
      (\<forall>r. renderRow field = Inr r \<longrightarrow> DeleteButton \<notin> set (controls r)))"
proof (intro conjI impI)
  assume sys: "editable field = Some System"
  show "rowControls field = [EditButton]" using sys by (rule rowControls_system)
  show "DeleteButton \<notin> set (rowControls field)" using sys by (simp add: rowControls_system)
  show "\<forall>c. HiddenSwitch c \<notin> set (rowControls field)" using sys by (simp add: rowControls_system)
  show "\<forall>r. renderRow field = Inr r \<longrightarrow> controls r = [EditButton]"
    using sys by (auto simp add: rowControls_system dest: renderRow_controls)
  show "typeSelectDisabled (editField index field s)"
    using sys by (simp add: typeSelectDisabled_def getValues_editable_def editField_def)
  show "nameInputDisabled (editField index field s)"
    using sys by (simp add: nameInputDisabled_def getValues_editable_def editField_def)
next
  assume opt: "editable field = Some SystemButOptional"
  show "DeleteButton \<notin> set (rowControls field)"
    using opt by (simp add: rowControls_system_but_optional)
  show "\<forall>r. renderRow field = Inr r \<longrightarrow> DeleteButton \<notin> set (controls r)"
    using opt by (auto simp add: rowControls_system_but_optional dest: renderRow_controls)
qed

text \<open>
  The theorem at the system field \<^verbatim>\<open>name\<close> and at a field \<^verbatim>\<open>email\<close> that is system but
  optional.
\<close>

theorem system_field_protected_witness:
  "renderRow ((blank_field ''name'' ''name'')\<lparr>editable := Some System\<rparr>) =
     Inr \<lparr>badge = ''Optional'', hiddenBadge = False, typeLabel = ''Name'', controls = [EditButton]\<rparr> \<and>
   typeSelectDisabled
     (editField 0 ((blank_field ''name'' ''name'')\<lparr>editable := Some System\<rparr>) two_fields) \<and>
   nameInputDisabled
     (editField 0 ((blank_field ''name'' ''name'')\<lparr>editable := Some System\<rparr>) two_fields) \<and>
   rowControls ((blank_field ''email'' ''email'')\<lparr>editable := Some SystemButOptional\<rparr>) =
     [HiddenSwitch True, EditButton]"
  using system_field_protected
      [of "(blank_field ''name'' ''name'')\<lparr>editable := Some System\<rparr>" 0 two_fields]
    system_field_protected
      [of "(blank_field ''email'' ''email'')\<lparr>editable := Some SystemButOptional\<rparr>" 0 two_fields]
  by (simp add: renderRow_def FieldTypes_def rowControls_def blank_field_def)

section \<open>Properties of the request guard chain\<close>

subsection \<open>Authentication and role\<close>

lemma resolve_publicProcedure:
  "resolve publicProcedure handler c w = perfMiddleware c (\<lambda>ctx'. handler c) w"
  by (simp add: resolve_def publicProcedure_def use_def procedure_def perfMiddleware_def)

lemma isAuthedMiddleware_reject:
  "user (ctx c) = None \<or> session (ctx c) = None \<Longrightarrow>
   isAuthedMiddleware c next w = (Inl UNAUTHORIZED, w)"
  by (auto simp add: isAuthedMiddleware_def)

lemma isAuthedMiddleware_eq:
  "isAuthedMiddleware c next w =
    (if user (ctx c) = None \<or> session (ctx c) = None then (Inl UNAUTHORIZED, w)
     else next (ctx c) w)"
  by (simp add: isAuthedMiddleware_def)

lemma isAuthedMiddleware_pass:
  "user (ctx c) = Some u \<Longrightarrow> session (ctx c) = Some ss \<Longrightarrow>
   isAuthedMiddleware c next w = next (ctx c) w"
  by (simp add: isAuthedMiddleware_eq)

lemma ctx_user_same: "user x = Some u \<Longrightarrow> x\<lparr>user := Some u\<rparr> = x"
  by (cases x) simp

lemma isAdmin_fn_eq:
  "isAdmin_fn c next w =
    (case user (ctx c) of
       None \<Rightarrow> (Inl INTERNAL_SERVER_ERROR, w)
     | Some u \<Rightarrow> if role u \<noteq> ''ADMIN'' then (Inl UNAUTHORIZED, w) else next (ctx c) w)"
  by (simp add: isAdmin_fn_def ctx_user_same split: option.splits)

lemma use_perf_first:
  "resolve (use (use procedure perfMiddleware) m) handler c w =
   perfMiddleware c (\<lambda>ctx'. m c (\<lambda>ctx''. handler (c\<lparr>ctx := ctx''\<rparr>))) w"
  by (simp add: resolve_def use_def procedure_def perfMiddleware_def)

lemma use_perf_first_two:
  "resolve (use (use (use procedure perfMiddleware) m1) m2) handler c w =
   perfMiddleware c (\<lambda>ctx'. m1 c (\<lambda>ctx''. m2 (c\<lparr>ctx := ctx''\<rparr>) (\<lambda>ctx3. handler (c\<lparr>ctx := ctx3\<rparr>)))) w"
  by (simp add: resolve_def use_def procedure_def perfMiddleware_def)

lemma perf_rejected:
  "perfMiddleware c (\<lambda>ctx' w'. (Inl code, w')) w =
   (Inl code,
    mark (Measure (measure_name False (call_type c) (path c)) ''Start'' ''End'')
      (mark (Mark ''End'') (mark (Mark ''Start'') w)))"
  by (simp add: perfMiddleware_def)

lemma perf_rejected_frame:
  "fst (perfMiddleware c (\<lambda>ctx' w'. (Inl code, w')) w) = Inl code"
  "app (snd (perfMiddleware c (\<lambda>ctx' w'. (Inl code, w')) w)) = app w"
  "membership (snd (perfMiddleware c (\<lambda>ctx' w'. (Inl code, w')) w)) = membership w"
  by (simp_all add: perf_rejected mark_def)

lemma authed_rejects:
  assumes "user (ctx c) = None \<or> session (ctx c) = None"
  shows "resolve authedProcedure handler c w = perfMiddleware c (\<lambda>ctx' w'. (Inl UNAUTHORIZED, w')) w"
    and "resolve authedAdminProcedure handler c w =
           perfMiddleware c (\<lambda>ctx' w'. (Inl UNAUTHORIZED, w')) w"
    and "resolve (authedRateLimitedProcedure rateLimit intervalInMs limit) handler c w =
           perfMiddleware c (\<lambda>ctx' w'. (Inl UNAUTHORIZED, w')) w"
    and "resolve (userBelongsToTeamProcedure str_num) handler c w =
           perfMiddleware c (\<lambda>ctx' w'. (Inl UNAUTHORIZED, w')) w"
proof -
  have rej: "\<And>next. isAuthedMiddleware c next = (\<lambda>w'. (Inl UNAUTHORIZED, w'))"
    using assms by (intro ext) (rule isAuthedMiddleware_reject)
  show "resolve authedProcedure handler c w = perfMiddleware c (\<lambda>ctx' w'. (Inl UNAUTHORIZED, w')) w"
    by (simp add: authedProcedure_def use_perf_first rej)
  show "resolve authedAdminProcedure handler c w =
      perfMiddleware c (\<lambda>ctx' w'. (Inl UNAUTHORIZED, w')) w"
    by (simp add: authedAdminProcedure_def isAdminMiddleware_def unstable_pipe_def use_perf_first
        use_def [of isAuthedMiddleware] rej)
  show "resolve (authedRateLimitedProcedure rateLimit intervalInMs limit) handler c w =
      perfMiddleware c (\<lambda>ctx' w'. (Inl UNAUTHORIZED, w')) w"
    by (simp add: authedRateLimitedProcedure_def use_perf_first_two rej)
  show "resolve (userBelongsToTeamProcedure str_num) handler c w =
      perfMiddleware c (\<lambda>ctx' w'. (Inl UNAUTHORIZED, w')) w"
    by (simp add: userBelongsToTeamProcedure_def use_perf_first_two rej)
qed

lemma isAdminMiddleware_authed:
  assumes "user (ctx c) = Some u" and "session (ctx c) = Some ss"
  shows "isAdminMiddleware c next w =
    (if role u \<noteq> ''ADMIN'' then (Inl UNAUTHORIZED, w) else next (ctx c) w)"
  using assms
  by (simp add: isAdminMiddleware_def unstable_pipe_def use_def isAuthedMiddleware_eq
      isAdmin_fn_eq)

lemma admin_authed:
  assumes "user (ctx c) = Some u" and "session (ctx c) = Some ss"
  shows "role u \<noteq> ''ADMIN'' \<Longrightarrow>
           resolve authedAdminProcedure handler c w =
             perfMiddleware c (\<lambda>ctx' w'. (Inl UNAUTHORIZED, w')) w"
    and "role u = ''ADMIN'' \<Longrightarrow>
           resolve authedAdminProcedure handler c w = resolve publicProcedure handler c w"
proof -
  have adm: "\<And>next. isAdminMiddleware c next =
      (\<lambda>w'. if role u \<noteq> ''ADMIN'' then (Inl UNAUTHORIZED, w') else next (ctx c) w')"
    using assms by (intro ext) (rule isAdminMiddleware_authed)
  show "role u \<noteq> ''ADMIN'' \<Longrightarrow>
      resolve authedAdminProcedure handler c w =
        perfMiddleware c (\<lambda>ctx' w'. (Inl UNAUTHORIZED, w')) w"
    by (simp add: authedAdminProcedure_def use_perf_first adm)
  show "role u = ''ADMIN'' \<Longrightarrow>
      resolve authedAdminProcedure handler c w = resolve publicProcedure handler c w"
    by (simp add: authedAdminProcedure_def use_perf_first adm resolve_publicProcedure)
qed

text \<open>
  C5. For every request and every world:
  \<^item> when the context has no user or no session, the authentication stage answers
    \<^verbatim>\<open>UNAUTHORIZED\<close> whatever its \<^verbatim>\<open>next\<close> is, and each of the four procedures built on
    it (authed, admin, rate-limited, team) gives, for every handler, what the
    instrumentation stage gives around a bare \<^verbatim>\<open>UNAUTHORIZED\<close>: the result does not
    depend on the handler or on any later stage, and the handler's state \<open>app\<close> and the
    membership table are as before;
  \<^item> when user and session are there and the role is not \<^verbatim>\<open>ADMIN\<close>, the admin procedure
    gives the same \<^verbatim>\<open>UNAUTHORIZED\<close>;
  \<^item> when the role is \<^verbatim>\<open>ADMIN\<close>, the admin procedure runs the handler on the request
    as it came, inside the instrumentation stage.
\<close>

theorem authentication_and_role_stage:
  "(user (ctx c) = None \<or> session (ctx c) = None \<longrightarrow>
      (\<forall>next :: ('s, 'r, 'h) next_fn. isAuthedMiddleware c next w = (Inl UNAUTHORIZED, w)) \<and>
      (\<forall>handler :: ('s, 'r, 'h) handler. resolve authedProcedure handler c w =
         perfMiddleware c (\<lambda>ctx' w'. (Inl UNAUTHORIZED, w')) w) \<and>
      (\<forall>handler :: ('s, 'r, 'h) handler. resolve authedAdminProcedure handler c w =
         perfMiddleware c (\<lambda>ctx' w'. (Inl UNAUTHORIZED, w')) w) \<and>
      (\<forall>(handler :: ('s, 'r, 'h) handler) rateLimit intervalInMs limit.
         resolve (authedRateLimitedProcedure rateLimit intervalInMs limit) handler c w =
         perfMiddleware c (\<lambda>ctx' w'. (Inl UNAUTHORIZED, w')) w) \<and>
      (\<forall>(handler :: ('s, 'r, 'h) handler) str_num. resolve (userBelongsToTeamProcedure str_num) handler c w =
         perfMiddleware c (\<lambda>ctx' w'. (Inl UNAUTHORIZED, w')) w)) \<and>
   (\<forall>u ss. user (ctx c) = Some u \<and> session (ctx c) = Some ss \<and> role u \<noteq> ''ADMIN'' \<longrightarrow>
      (\<forall>handler :: ('s, 'r, 'h) handler. resolve authedAdminProcedure handler c w =
         perfMiddleware c (\<lambda>ctx' w'. (Inl UNAUTHORIZED, w')) w)) \<and>
   (\<forall>u ss. user (ctx c) = Some u \<and> session (ctx c) = Some ss \<and> role u = ''ADMIN'' \<longrightarrow>
      (\<forall>handler :: ('s, 'r, 'h) handler. resolve authedAdminProcedure handler c w =
         perfMiddleware c (\<lambda>ctx'. handler c) w)) \<and>
   fst (perfMiddleware c (\<lambda>ctx' w'. (Inl UNAUTHORIZED :: trpc_code + 'r, w')) w) = Inl UNAUTHORIZED \<and>
   app (snd (perfMiddleware c (\<lambda>ctx' w'. (Inl UNAUTHORIZED :: trpc_code + 'r, w')) w)) = app w \<and>
   membership (snd (perfMiddleware c (\<lambda>ctx' w'. (Inl UNAUTHORIZED :: trpc_code + 'r, w')) w)) = membership w"
proof -
  have unauth: "user (ctx c) = None \<or> session (ctx c) = None \<longrightarrow>
      (\<forall>next :: ('s, 'r, 'h) next_fn. isAuthedMiddleware c next w = (Inl UNAUTHORIZED, w)) \<and>
      (\<forall>handler :: ('s, 'r, 'h) handler. resolve authedProcedure handler c w =
         perfMiddleware c (\<lambda>ctx' w'. (Inl UNAUTHORIZED, w')) w) \<and>
      (\<forall>handler :: ('s, 'r, 'h) handler. resolve authedAdminProcedure handler c w =
         perfMiddleware c (\<lambda>ctx' w'. (Inl UNAUTHORIZED, w')) w) \<and>
      (\<forall>(handler :: ('s, 'r, 'h) handler) rateLimit intervalInMs limit.
         resolve (authedRateLimitedProcedure rateLimit intervalInMs limit) handler c w =
         perfMiddleware c (\<lambda>ctx' w'. (Inl UNAUTHORIZED, w')) w) \<and>
      (\<forall>(handler :: ('s, 'r, 'h) handler) str_num. resolve (userBelongsToTeamProcedure str_num) handler c w =
         perfMiddleware c (\<lambda>ctx' w'. (Inl UNAUTHORIZED, w')) w)"
    by (intro impI conjI allI) (simp_all only: isAuthedMiddleware_reject authed_rejects)
  have non_admin: "\<forall>u ss. user (ctx c) = Some u \<and> session (ctx c) = Some ss \<and> role u \<noteq> ''ADMIN'' \<longrightarrow>
      (\<forall>handler :: ('s, 'r, 'h) handler. resolve authedAdminProcedure handler c w =
         perfMiddleware c (\<lambda>ctx' w'. (Inl UNAUTHORIZED, w')) w)"
    using admin_authed(1) [of c] by blast
  have admin: "\<forall>u ss. user (ctx c) = Some u \<and> session (ctx c) = Some ss \<and> role u = ''ADMIN'' \<longrightarrow>
      (\<forall>handler :: ('s, 'r, 'h) handler. resolve authedAdminProcedure handler c w =
         perfMiddleware c (\<lambda>ctx'. handler c) w)"
    using admin_authed(2) [of c] by (auto simp add: resolve_publicProcedure)
  from unauth non_admin admin perf_rejected_frame [of c UNAUTHORIZED w]
  show ?thesis by (intro conjI)
qed

text \<open>
  The theorem at the request without a session, at the member asking the admin procedure,
  and at the administrator: the counter stays at 0 in the first two and is 1 in the third.
\<close>

theorem authentication_and_role_stage_witness:
  "resolve authedProcedure counting_handler anonymous_call (world_with []) =
     (Inl UNAUTHORIZED,
      \<lparr>performance = [Mark ''Start'', Mark ''End'',
                      Measure (measure_name False ''query'' ''viewer.me'') ''Start'' ''End''],
        membership = [], app = 0\<rparr>) \<and>
   resolve authedAdminProcedure counting_handler member_call (world_with []) =
     (Inl UNAUTHORIZED,
      \<lparr>performance = [Mark ''Start'', Mark ''End'',
                      Measure (measure_name False ''query'' ''viewer.teams.get'') ''Start'' ''End''],
        membership = [], app = 0\<rparr>) \<and>
   resolve authedAdminProcedure counting_handler admin_call (world_with []) =
     (Inr 0,
      \<lparr>performance = [Mark ''Start'', Mark ''End'',
                      Measure (measure_name True ''query'' ''viewer.admin.list'') ''Start'' ''End''],
        membership = [], app = 1\<rparr>)"
  using authentication_and_role_stage [where 'r = nat, of anonymous_call "world_with []"]
    authentication_and_role_stage [where 'r = nat, of member_call "world_with []"]
    authentication_and_role_stage [where 'r = nat, of admin_call "world_with []"]
  by (simp add: anonymous_call_def member_call_def admin_call_def world_with_def
      counting_handler_def perfMiddleware_def mark_def)

subsection \<open>Team membership\<close>

lemma findFirst_team_None:
  "findFirst uid (Some n) rows = None \<longleftrightarrow>
   (\<forall>m \<in> set rows. \<not> (userId m = uid \<and> Finite (of_int (teamId m)) = n))"
  by (auto simp add: findFirst_def find_None_iff)

lemma findFirst_any_None:
  "findFirst uid None rows = None \<longleftrightarrow> (\<forall>m \<in> set rows. userId m \<noteq> uid)"
  by (auto simp add: findFirst_def find_None_iff)

lemma safeParse_Failure_iff:
  "safeParse str_num raw = Some Failure \<longleftrightarrow>
   (\<forall>kvs. raw \<noteq> JObject kvs) \<or>
   (\<exists>kvs v. raw = JObject kvs \<and> map_of kvs ''teamId'' = Some v \<and> v \<noteq> JUndefined \<and>
      ToNumber str_num v = Coerced (NonFinite NaN))"
  by (cases raw)
    (auto simp add: safeParse_def
      split: option.splits js_value.splits coercion.splits js_number.splits non_finite.splits)

lemma safeParse_given:
  assumes "raw = JObject kvs" and "map_of kvs ''teamId'' = Some v" and "v \<noteq> JUndefined"
    and "ToNumber str_num v = Coerced n" and "n \<noteq> NonFinite NaN"
  shows "safeParse str_num raw = Some (Success (Some n))"
  using assms
  by (cases v)
    (auto simp add: safeParse_def split: js_number.splits non_finite.splits)

lemma safeParse_omitted:
  assumes "raw = JObject kvs"
    and "map_of kvs ''teamId'' = None \<or> map_of kvs ''teamId'' = Some JUndefined"
  shows "safeParse str_num raw = Some (Success None)"
  using assms by (auto simp add: safeParse_def)

lemma team_stage_authed:
  assumes "user (ctx c) = Some u" and "session (ctx c) = Some ss"
    and "safeParse str_num (rawInput c) = Some p"
  shows "userBelongsToTeamMiddleware str_num c next w =
    (case p of
       Failure \<Rightarrow> (Inl BAD_REQUEST, w)
     | Success data \<Rightarrow>
         (case findFirst (user_id u) data (membership w) of
            None \<Rightarrow> (Inl UNAUTHORIZED, w)
          | Some team \<Rightarrow> next (ctx c) w))"
  using assms by (simp add: userBelongsToTeamMiddleware_def)

lemma perf_membership:
  "perfMiddleware c (\<lambda>ctx' w'. f (membership w') w') w =
   perfMiddleware c (\<lambda>ctx' w'. f (membership w) w') w"
  by (simp add: perfMiddleware_def mark_def)

lemma team_procedure_authed:
  assumes usr: "user (ctx c) = Some u" and ses: "session (ctx c) = Some ss"
    and parse: "safeParse str_num (rawInput c) = Some p"
  shows "resolve (userBelongsToTeamProcedure str_num) handler c w =
    perfMiddleware c
      (\<lambda>ctx' w'. case p of
         Failure \<Rightarrow> (Inl BAD_REQUEST, w')
       | Success data \<Rightarrow>
           (case findFirst (user_id u) data (membership w) of
              None \<Rightarrow> (Inl UNAUTHORIZED, w')
            | Some team \<Rightarrow> handler c w')) w"
proof -
  have auth: "\<And>next. isAuthedMiddleware c next = next (ctx c)"
    using usr ses by (intro ext) (rule isAuthedMiddleware_pass)
  have team: "\<And>next. userBelongsToTeamMiddleware str_num c next =
      (\<lambda>w'. case p of
         Failure \<Rightarrow> (Inl BAD_REQUEST, w')
       | Success data \<Rightarrow>
           (case findFirst (user_id u) data (membership w') of
              None \<Rightarrow> (Inl UNAUTHORIZED, w')
            | Some team \<Rightarrow> next (ctx c) w'))"
    using usr ses parse by (intro ext) (rule team_stage_authed)
  have "resolve (userBelongsToTeamProcedure str_num) handler c w =
    perfMiddleware c
      (\<lambda>ctx' w'. case p of
         Failure \<Rightarrow> (Inl BAD_REQUEST, w')
       | Success data \<Rightarrow>
           (case findFirst (user_id u) data (membership w') of
              None \<Rightarrow> (Inl UNAUTHORIZED, w')
            | Some team \<Rightarrow> handler c w')) w"
    by (simp add: userBelongsToTeamProcedure_def use_perf_first_two auth team
        cong: option.case_cong parse_result.case_cong)
  also have "\<dots> =
    perfMiddleware c
      (\<lambda>ctx' w'. case p of
         Failure \<Rightarrow> (Inl BAD_REQUEST, w')
       | Success data \<Rightarrow>
           (case findFirst (user_id u) data (membership w) of
              None \<Rightarrow> (Inl UNAUTHORIZED, w')
            | Some team \<Rightarrow> handler c w')) w"
    by (rule perf_membership
        [of c "\<lambda>rows w'. case p of
           Failure \<Rightarrow> (Inl BAD_REQUEST, w')
         | Success data \<Rightarrow>
             (case findFirst (user_id u) data rows of
                None \<Rightarrow> (Inl UNAUTHORIZED, w')
              | Some team \<Rightarrow> handler c w')" w])
  finally show ?thesis .
qed

lemma team_decided:
  assumes usr: "user (ctx c) = Some u" and ses: "session (ctx c) = Some ss"
    and parse: "safeParse str_num (rawInput c) = Some (Success data)"
  shows "findFirst (user_id u) data (membership w) = None \<Longrightarrow>
           (\<forall>next :: ('s, 'r, 'h) next_fn.
              userBelongsToTeamMiddleware str_num c next w = (Inl UNAUTHORIZED, w)) \<and>
           (\<forall>handler :: ('s, 'r, 'h) handler.
              resolve (userBelongsToTeamProcedure str_num) handler c w =
              perfMiddleware c (\<lambda>ctx' w'. (Inl UNAUTHORIZED, w')) w)"
    and "findFirst (user_id u) data (membership w) \<noteq> None \<Longrightarrow>
           (\<forall>next :: ('s, 'r, 'h) next_fn.
              userBelongsToTeamMiddleware str_num c next w = next (ctx c) w) \<and>
           (\<forall>handler :: ('s, 'r, 'h) handler.
              resolve (userBelongsToTeamProcedure str_num) handler c w =
              perfMiddleware c (\<lambda>ctx'. handler c) w)"
  by (auto simp add: team_stage_authed [OF usr ses parse] team_procedure_authed [OF usr ses parse])

text \<open>
  C6 (as amended). For every request with a user and a session, to the team stage and to
  the team procedure:
  \<^item> when the raw input fails the schema, the answer is \<^verbatim>\<open>BAD_REQUEST\<close>; it fails exactly
    when it is not an object, or its \<^verbatim>\<open>teamId\<close> is there, is not \<^verbatim>\<open>undefined\<close>, and
    \<^verbatim>\<open>Number\<close> makes it \<^verbatim>\<open>NaN\<close>;
  \<^item> when the input is an object whose \<^verbatim>\<open>teamId\<close> \<^verbatim>\<open>Number\<close> makes a number \<open>n\<close>: with no
    membership row of the user's id and the team id \<open>n\<close> the answer is \<^verbatim>\<open>UNAUTHORIZED\<close>;
    with such a row the stage calls \<^verbatim>\<open>next\<close> with the context it was given, and the
    procedure runs the handler on the request as it came;
  \<^item> when the input is an object without a \<^verbatim>\<open>teamId\<close> (missing or \<^verbatim>\<open>undefined\<close>): with no
    membership row of the user's id at all the answer is \<^verbatim>\<open>UNAUTHORIZED\<close>; with a row of
    the user's id, of whatever team, the request passes in the same way.
  Where the answer is a rejection the handler is not run: the procedure gives what the
  instrumentation stage gives around the bare rejection.
\<close>

theorem team_membership_stage:
  assumes usr: "user (ctx c) = Some u" and ses: "session (ctx c) = Some ss"
  shows "(safeParse str_num (rawInput c) = Some Failure \<longrightarrow>
            (\<forall>next :: ('s, 'r, 'h) next_fn.
               userBelongsToTeamMiddleware str_num c next w = (Inl BAD_REQUEST, w)) \<and>
            (\<forall>handler :: ('s, 'r, 'h) handler.
               resolve (userBelongsToTeamProcedure str_num) handler c w =
               perfMiddleware c (\<lambda>ctx' w'. (Inl BAD_REQUEST, w')) w)) \<and>
         (safeParse str_num (rawInput c) = Some Failure \<longleftrightarrow>
            (\<forall>kvs. rawInput c \<noteq> JObject kvs) \<or>
            (\<exists>kvs v. rawInput c = JObject kvs \<and> map_of kvs ''teamId'' = Some v \<and>
               v \<noteq> JUndefined \<and> ToNumber str_num v = Coerced (NonFinite NaN))) \<and>
         (\<forall>kvs v n.
            rawInput c = JObject kvs \<and> map_of kvs ''teamId'' = Some v \<and> v \<noteq> JUndefined \<and>
            ToNumber str_num v = Coerced n \<and> n \<noteq> NonFinite NaN \<longrightarrow>
            ((\<forall>m \<in> set (membership w).
                 \<not> (userId m = user_id u \<and> Finite (of_int (teamId m)) = n)) \<longrightarrow>
               (\<forall>next :: ('s, 'r, 'h) next_fn.
                  userBelongsToTeamMiddleware str_num c next w = (Inl UNAUTHORIZED, w)) \<and>
               (\<forall>handler :: ('s, 'r, 'h) handler.
                  resolve (userBelongsToTeamProcedure str_num) handler c w =
                  perfMiddleware c (\<lambda>ctx' w'. (Inl UNAUTHORIZED, w')) w)) \<and>
            ((\<exists>m \<in> set (membership w).
                 userId m = user_id u \<and> Finite (of_int (teamId m)) = n) \<longrightarrow>
               (\<forall>next :: ('s, 'r, 'h) next_fn.
                  userBelongsToTeamMiddleware str_num c next w = next (ctx c) w) \<and>
               (\<forall>handler :: ('s, 'r, 'h) handler.
                  resolve (userBelongsToTeamProcedure str_num) handler c w =
                  perfMiddleware c (\<lambda>ctx'. handler c) w))) \<and>
         (\<forall>kvs.
            rawInput c = JObject kvs \<and>
            (map_of kvs ''teamId'' = None \<or> map_of kvs ''teamId'' = Some JUndefined) \<longrightarrow>
            ((\<forall>m \<in> set (membership w). userId m \<noteq> user_id u) \<longrightarrow>
               (\<forall>next :: ('s, 'r, 'h) next_fn.
                  userBelongsToTeamMiddleware str_num c next w = (Inl UNAUTHORIZED, w)) \<and>
               (\<forall>handler :: ('s, 'r, 'h) handler.
                  resolve (userBelongsToTeamProcedure str_num) handler c w =
                  perfMiddleware c (\<lambda>ctx' w'. (Inl UNAUTHORIZED, w')) w)) \<and>
            ((\<exists>m \<in> set (membership w). userId m = user_id u) \<longrightarrow>
               (\<forall>next :: ('s, 'r, 'h) next_fn.
                  userBelongsToTeamMiddleware str_num c next w = next (ctx c) w) \<and>
               (\<forall>handler :: ('s, 'r, 'h) handler.
                  resolve (userBelongsToTeamProcedure str_num) handler c w =
                  perfMiddleware c (\<lambda>ctx'. handler c) w)))"
proof -
  have bad: "safeParse str_num (rawInput c) = Some Failure \<longrightarrow>
      (\<forall>next :: ('s, 'r, 'h) next_fn.
         userBelongsToTeamMiddleware str_num c next w = (Inl BAD_REQUEST, w)) \<and>
      (\<forall>handler :: ('s, 'r, 'h) handler.
         resolve (userBelongsToTeamProcedure str_num) handler c w =
         perfMiddleware c (\<lambda>ctx' w'. (Inl BAD_REQUEST, w')) w)"
  proof
    assume p: "safeParse str_num (rawInput c) = Some Failure"
    show "(\<forall>next :: ('s, 'r, 'h) next_fn.
         userBelongsToTeamMiddleware str_num c next w = (Inl BAD_REQUEST, w)) \<and>
      (\<forall>handler :: ('s, 'r, 'h) handler.
         resolve (userBelongsToTeamProcedure str_num) handler c w =
         perfMiddleware c (\<lambda>ctx' w'. (Inl BAD_REQUEST, w')) w)"
      by (simp add: team_stage_authed [OF usr ses p] team_procedure_authed [OF usr ses p])
  qed
  have given_none:
    "(\<forall>next :: ('s, 'r, 'h) next_fn.
        userBelongsToTeamMiddleware str_num c next w = (Inl UNAUTHORIZED, w)) \<and>
     (\<forall>handler :: ('s, 'r, 'h) handler.
        resolve (userBelongsToTeamProcedure str_num) handler c w =
        perfMiddleware c (\<lambda>ctx' w'. (Inl UNAUTHORIZED, w')) w)"
    if "rawInput c = JObject kvs" "map_of kvs ''teamId'' = Some v" "v \<noteq> JUndefined"
      "ToNumber str_num v = Coerced n" "n \<noteq> NonFinite NaN"
      "\<forall>m \<in> set (membership w). \<not> (userId m = user_id u \<and> Finite (of_int (teamId m)) = n)"
    for kvs v n
  proof -
    from that(6) have "findFirst (user_id u) (Some n) (membership w) = None"
      by (simp add: findFirst_team_None)
    then show ?thesis
      by (rule team_decided(1) [OF usr ses safeParse_given [OF that(1-5)]])
  qed
  have given_some:
    "(\<forall>next :: ('s, 'r, 'h) next_fn.
        userBelongsToTeamMiddleware str_num c next w = next (ctx c) w) \<and>
     (\<forall>handler :: ('s, 'r, 'h) handler.
        resolve (userBelongsToTeamProcedure str_num) handler c w =
        perfMiddleware c (\<lambda>ctx'. handler c) w)"
    if "rawInput c = JObject kvs" "map_of kvs ''teamId'' = Some v" "v \<noteq> JUndefined"
      "ToNumber str_num v = Coerced n" "n \<noteq> NonFinite NaN"
      "\<exists>m \<in> set (membership w). userId m = user_id u \<and> Finite (of_int (teamId m)) = n"
    for kvs v n
  proof -
    from that(6) have "findFirst (user_id u) (Some n) (membership w) \<noteq> None"
      by (simp add: findFirst_team_None)
    then show ?thesis
      by (rule team_decided(2) [OF usr ses safeParse_given [OF that(1-5)]])
  qed
  have omitted_none:
    "(\<forall>next :: ('s, 'r, 'h) next_fn.
        userBelongsToTeamMiddleware str_num c next w = (Inl UNAUTHORIZED, w)) \<and>
     (\<forall>handler :: ('s, 'r, 'h) handler.
        resolve (userBelongsToTeamProcedure str_num) handler c w =
        perfMiddleware c (\<lambda>ctx' w'. (Inl UNAUTHORIZED, w')) w)"
    if "rawInput c = JObject kvs"
      "map_of kvs ''teamId'' = None \<or> map_of kvs ''teamId'' = Some JUndefined"
      "\<forall>m \<in> set (membership w). userId m \<noteq> user_id u"
    for kvs
  proof -
    from that(3) have "findFirst (user_id u) None (membership w) = None"
      by (simp add: findFirst_any_None)
    then show ?thesis
      by (rule team_decided(1) [OF usr ses safeParse_omitted [OF that(1,2)]])
  qed
  have omitted_some:
    "(\<forall>next :: ('s, 'r, 'h) next_fn.
        userBelongsToTeamMiddleware str_num c next w = next (ctx c) w) \<and>
     (\<forall>handler :: ('s, 'r, 'h) handler.
        resolve (userBelongsToTeamProcedure str_num) handler c w =
        perfMiddleware c (\<lambda>ctx'. handler c) w)"
    if "rawInput c = JObject kvs"
      "map_of kvs ''teamId'' = None \<or> map_of kvs ''teamId'' = Some JUndefined"
      "\<exists>m \<in> set (membership w). userId m = user_id u"
    for kvs
  proof -
    from that(3) have "findFirst (user_id u) None (membership w) \<noteq> None"
      by (simp add: findFirst_any_None)
    then show ?thesis
      by (rule team_decided(2) [OF usr ses safeParse_omitted [OF that(1,2)]])
  qed
  have given: "\<forall>kvs v n.
      rawInput c = JObject kvs \<and> map_of kvs ''teamId'' = Some v \<and> v \<noteq> JUndefined \<and>
      ToNumber str_num v = Coerced n \<and> n \<noteq> NonFinite NaN \<longrightarrow>
      ((\<forall>m \<in> set (membership w).
           \<not> (userId m = user_id u \<and> Finite (of_int (teamId m)) = n)) \<longrightarrow>
         (\<forall>next :: ('s, 'r, 'h) next_fn.
            userBelongsToTeamMiddleware str_num c next w = (Inl UNAUTHORIZED, w)) \<and>
         (\<forall>handler :: ('s, 'r, 'h) handler.
            resolve (userBelongsToTeamProcedure str_num) handler c w =
            perfMiddleware c (\<lambda>ctx' w'. (Inl UNAUTHORIZED, w')) w)) \<and>
      ((\<exists>m \<in> set (membership w).
           userId m = user_id u \<and> Finite (of_int (teamId m)) = n) \<longrightarrow>
         (\<forall>next :: ('s, 'r, 'h) next_fn.
            userBelongsToTeamMiddleware str_num c next w = next (ctx c) w) \<and>
         (\<forall>handler :: ('s, 'r, 'h) handler.
            resolve (userBelongsToTeamProcedure str_num) handler c w =
            perfMiddleware c (\<lambda>ctx'. handler c) w))"
    using given_none given_some by blast
  have omitted: "\<forall>kvs.
      rawInput c = JObject kvs \<and>
      (map_of kvs ''teamId'' = None \<or> map_of kvs ''teamId'' = Some JUndefined) \<longrightarrow>
      ((\<forall>m \<in> set (membership w). userId m \<noteq> user_id u) \<longrightarrow>
         (\<forall>next :: ('s, 'r, 'h) next_fn.
            userBelongsToTeamMiddleware str_num c next w = (Inl UNAUTHORIZED, w)) \<and>
         (\<forall>handler :: ('s, 'r, 'h) handler.
            resolve (userBelongsToTeamProcedure str_num) handler c w =
            perfMiddleware c (\<lambda>ctx' w'. (Inl UNAUTHORIZED, w')) w)) \<and>
      ((\<exists>m \<in> set (membership w). userId m = user_id u) \<longrightarrow>
         (\<forall>next :: ('s, 'r, 'h) next_fn.
            userBelongsToTeamMiddleware str_num c next w = next (ctx c) w) \<and>
         (\<forall>handler :: ('s, 'r, 'h) handler.
            resolve (userBelongsToTeamProcedure str_num) handler c w =
            perfMiddleware c (\<lambda>ctx'. handler c) w))"
    using omitted_none omitted_some by blast
  from bad safeParse_Failure_iff [of str_num "rawInput c"] given omitted
  show ?thesis by (intro conjI)
qed

text \<open>
  The theorem at the member (user 7) asking for team 5, once as the string \<^verbatim>\<open>"5"\<close>, which
  reads as 5, and once as the number: a row of team 9 alone does not let the request in,
  a row of team 5 beside it does; a \<^verbatim>\<open>teamId\<close> that is an empty object is a bad request;
  and without a \<^verbatim>\<open>teamId\<close> a user with no row is turned away.
\<close>

theorem team_membership_stage_witness:
  "resolve (userBelongsToTeamProcedure (Finite 5)) counting_handler
       (member_call\<lparr>rawInput := JObject [(''teamId'', JString ''5'')]\<rparr>)
       (world_with [\<lparr>userId = 7, teamId = 9\<rparr>]) =
     (Inl UNAUTHORIZED,
      \<lparr>performance = [Mark ''Start'', Mark ''End'',
                      Measure (measure_name False ''query'' ''viewer.teams.get'') ''Start'' ''End''],
        membership = [\<lparr>userId = 7, teamId = 9\<rparr>], app = 0\<rparr>) \<and>
   resolve (userBelongsToTeamProcedure (Finite 5)) counting_handler
       (member_call\<lparr>rawInput := JObject [(''teamId'', JString ''5'')]\<rparr>)
       (world_with [\<lparr>userId = 7, teamId = 9\<rparr>, \<lparr>userId = 7, teamId = 5\<rparr>]) =
     (Inr 0,
      \<lparr>performance = [Mark ''Start'', Mark ''End'',
                      Measure (measure_name True ''query'' ''viewer.teams.get'') ''Start'' ''End''],
        membership = [\<lparr>userId = 7, teamId = 9\<rparr>, \<lparr>userId = 7, teamId = 5\<rparr>], app = 1\<rparr>) \<and>
   resolve (userBelongsToTeamProcedure (Finite 5)) counting_handler member_call
       (world_with [\<lparr>userId = 7, teamId = 9\<rparr>]) =
     (Inl UNAUTHORIZED,
      \<lparr>performance = [Mark ''Start'', Mark ''End'',
                      Measure (measure_name False ''query'' ''viewer.teams.get'') ''Start'' ''End''],
        membership = [\<lparr>userId = 7, teamId = 9\<rparr>], app = 0\<rparr>) \<and>
   resolve (userBelongsToTeamProcedure (Finite 5)) counting_handler
       (member_call\<lparr>rawInput := JObject [(''teamId'', JObject [])]\<rparr>)
       (world_with [\<lparr>userId = 7, teamId = 5\<rparr>]) =
     (Inl BAD_REQUEST,
      \<lparr>performance = [Mark ''Start'', Mark ''End'',
                      Measure (measure_name False ''query'' ''viewer.teams.get'') ''Start'' ''End''],
        membership = [\<lparr>userId = 7, teamId = 5\<rparr>], app = 0\<rparr>) \<and>
   resolve (userBelongsToTeamProcedure (Finite 5)) counting_handler
       (member_call\<lparr>rawInput := JObject []\<rparr>) (world_with []) =
     (Inl UNAUTHORIZED,
      \<lparr>performance = [Mark ''Start'', Mark ''End'',
                      Measure (measure_name False ''query'' ''viewer.teams.get'') ''Start'' ''End''],
        membership = [], app = 0\<rparr>)"
  using team_membership_stage [where 'r = nat,
      of "member_call\<lparr>rawInput := JObject [(''teamId'', JString ''5'')]\<rparr>"
      "\<lparr>user_id = 7, role = ''USER''\<rparr>" "()" "Finite 5"
      "world_with [\<lparr>userId = 7, teamId = 9\<rparr>]"]
    team_membership_stage [where 'r = nat,
      of "member_call\<lparr>rawInput := JObject [(''teamId'', JString ''5'')]\<rparr>"
      "\<lparr>user_id = 7, role = ''USER''\<rparr>" "()" "Finite 5"
      "world_with [\<lparr>userId = 7, teamId = 9\<rparr>, \<lparr>userId = 7, teamId = 5\<rparr>]"]
    team_membership_stage [where 'r = nat, of member_call
      "\<lparr>user_id = 7, role = ''USER''\<rparr>" "()" "Finite 5"
      "world_with [\<lparr>userId = 7, teamId = 9\<rparr>]"]
    team_membership_stage [where 'r = nat,
      of "member_call\<lparr>rawInput := JObject [(''teamId'', JObject [])]\<rparr>"
      "\<lparr>user_id = 7, role = ''USER''\<rparr>" "()" "Finite 5"
      "world_with [\<lparr>userId = 7, teamId = 5\<rparr>]"]
    team_membership_stage [where 'r = nat, of "member_call\<lparr>rawInput := JObject []\<rparr>"
      "\<lparr>user_id = 7, role = ''USER''\<rparr>" "()" "Finite 5" "world_with []"]
  by (simp add: member_call_def world_with_def safeParse_def
      counting_handler_def perfMiddleware_def mark_def)

text \<open>
  C6 as stated fails: the request of user 7 carries no \<^verbatim>\<open>teamId\<close>, so no membership row
  links the user to a given team, and the only row is of team 9; the input parses, the
  query puts no condition on the team, finds that row, and the handler runs.
\<close>

theorem team_membership_stage_counterexample:
  "resolve (userBelongsToTeamProcedure (Finite 5)) counting_handler
       (member_call\<lparr>rawInput := JObject []\<rparr>) (world_with [\<lparr>userId = 7, teamId = 9\<rparr>]) =
     (Inr 0,
      \<lparr>performance = [Mark ''Start'', Mark ''End'',
                      Measure (measure_name True ''query'' ''viewer.teams.get'') ''Start'' ''End''],
        membership = [\<lparr>userId = 7, teamId = 9\<rparr>], app = 1\<rparr>) \<and>
   fst (resolve (userBelongsToTeamProcedure (Finite 5)) counting_handler
       (member_call\<lparr>rawInput := JObject []\<rparr>) (world_with [\<lparr>userId = 7, teamId = 9\<rparr>])) \<noteq>
     Inl UNAUTHORIZED"
  by (simp add: userBelongsToTeamProcedure_def userBelongsToTeamMiddleware_def
      isAuthedMiddleware_def use_def procedure_def resolve_def perfMiddleware_def mark_def
      safeParse_def findFirst_def member_call_def world_with_def counting_handler_def)

end
